theory Spec2Isabelle
  imports Complex_Main
begin

section \<open>Python values and exceptions\<close>

text \<open>
  The exceptions the two modules can raise. \<open>Exception\<close> carries the message of the
  generic exceptions \<^verbatim>\<open>dataset.py\<close> raises itself; the others are the built-in
  exceptions of the interpreter (a failed \<^verbatim>\<open>float()\<close> is a \<open>ValueError\<close>, a call with
  the wrong number of arguments a \<open>TypeError\<close>, an attribute read on \<^verbatim>\<open>None\<close> an
  \<open>AttributeError\<close>, \<^verbatim>\<open>random.choice([])\<close> an \<open>IndexError\<close>, an image file that cannot
  be opened an \<open>OSError\<close>).
\<close>

datatype error =
    Exception string
  | TypeError
  | ValueError
  | IndexError
  | KeyError
  | AttributeError
  | ZeroDivisionError
  | OSError

section \<open>Coordinate scaling (\<^verbatim>\<open>DatasetFactory.scale_coordinates\<close>)\<close>

text \<open>
  \<^verbatim>\<open>int(a / b)\<close> on Python integers: true division followed by \<^verbatim>\<open>int()\<close>, which
  drops the fractional part, that is, rounds toward zero. The model computes the
  quotient exactly; the float quotient agrees with it as long as the magnitudes stay
  below \<open>2^53\<close>, far above any pixel coordinate.
\<close>

definition py_int_quot :: "int \<Rightarrow> int \<Rightarrow> int" where
  "py_int_quot a b = sgn a * sgn b * (\<bar>a\<bar> div \<bar>b\<bar>)"

text \<open>
  One axis of the scaling: \<^verbatim>\<open>int(value * target / base)\<close>. The base dimension is an
  attribute that is \<^verbatim>\<open>None\<close> until an image has been measured: arithmetic on it is a
  \<open>TypeError\<close>, and a base of zero is a \<open>ZeroDivisionError\<close>.
\<close>

definition scale_axis :: "int \<Rightarrow> int \<Rightarrow> int option \<Rightarrow> error + int" where
  "scale_axis v t base =
     (case base of
        None \<Rightarrow> Inl TypeError
      | Some b \<Rightarrow> if b = 0 then Inl ZeroDivisionError else Inr (py_int_quot (v * t) b))"

text \<open>
  Bounding boxes are dictionaries that hold lists, and the code mutates them in place,
  so objects live in a store: an address maps to a list of integers (a coordinate
  pair) or to a dictionary, whose values are integers or references. A dictionary is
  an association list in insertion order, the order \<^verbatim>\<open>items()\<close> iterates in.
\<close>

type_synonym addr = nat

datatype val = IntV int | Ref addr

datatype obj = ListO "int list" | DictO "(string \<times> val) list"

type_synonym heap = "addr \<Rightarrow> obj option"

text \<open>
  \<^verbatim>\<open>scale_coordinates(coordinates, target_coordinates)\<close>: writes index 0, then index 1
  of the list object it is given, and returns that same object (its address). An
  exception comes with the store as it is when it is raised: index 0 is already
  overwritten when the second assignment fails.
\<close>

definition scale_coordinates ::
  "int option \<Rightarrow> int option \<Rightarrow> heap \<Rightarrow> addr \<Rightarrow> int \<times> int \<Rightarrow>
     (error \<times> heap) + (heap \<times> addr)" where
  "scale_coordinates base_width base_height h coordinates target_coordinates =
     (case h coordinates of
        Some (ListO xs) \<Rightarrow>
          (if length xs < 1 then Inl (IndexError, h)
           else case scale_axis (xs ! 0) (fst target_coordinates) base_width of
             Inl e \<Rightarrow> Inl (e, h)
           | Inr x' \<Rightarrow>
               (if length xs < 2
                then Inl (IndexError, h(coordinates \<mapsto> ListO (xs[0 := x'])))
                else case scale_axis (xs ! 1) (snd target_coordinates) base_height of
                  Inl e \<Rightarrow> Inl (e, h(coordinates \<mapsto> ListO (xs[0 := x'])))
                | Inr y' \<Rightarrow>
                    Inr (h(coordinates \<mapsto> ListO (xs[0 := x', 1 := y'])), coordinates)))
      | _ \<Rightarrow> Inl (TypeError, h))"

section \<open>Blur amount and motion blur\<close>

text \<open>
  \<^verbatim>\<open>get_blur_amount\<close>: the variance of the Laplacian comes from OpenCV and is the
  input here; the threshold is the integer option \<^verbatim>\<open>--blur\<close>. Floats are modelled by
  real numbers. With a threshold of zero numpy yields an infinity or a NaN, which the
  reals do not have: the model answers \<open>None\<close> there.
\<close>

definition get_blur_amount :: "int \<Rightarrow> real \<Rightarrow> real option" where
  "get_blur_amount max_blur_amount variance_of_laplacian =
     (if max_blur_amount = 0 then None
      else
        let blur_amount = variance_of_laplacian / real_of_int max_blur_amount;
            blur_amount = (if blur_amount > 1 then 0.9 else blur_amount)
        in Some (1 - blur_amount))"

text \<open>\<^verbatim>\<open>np.identity(size)\<close> and the in-place division \<^verbatim>\<open>kernel /= size\<close>.\<close>

definition identity :: "nat \<Rightarrow> real list list" where
  "identity n = map (\<lambda>i. map (\<lambda>j. if i = j then 1 else 0) [0..<n]) [0..<n]"

definition divide_kernel :: "real list list \<Rightarrow> nat \<Rightarrow> real list list" where
  "divide_kernel krn ksize = map (map (\<lambda>v. v / real ksize)) krn"

text \<open>
  \<^verbatim>\<open>apply_motion_blur\<close>: \<open>filter2D\<close> is OpenCV's convolution, a parameter of the model;
  \<open>cv_img\<close> is the image as an array.
\<close>

definition apply_motion_blur ::
  "('img \<Rightarrow> real list list \<Rightarrow> 'img) \<Rightarrow> bool \<Rightarrow> 'img \<Rightarrow> real \<Rightarrow> 'img" where
  "apply_motion_blur filter2D no_blur cv_img amount =
     (if no_blur then cv_img
      else
        let ksize = (if amount \<le> 0.3 then 3 else if amount \<le> 0.7 then 5 else 9);
            krn = divide_kernel (identity ksize) ksize
        in filter2D cv_img krn)"

section \<open>Annotations (\<^verbatim>\<open>Dataset.parse_annotations\<close>)\<close>

text \<open>
  The part of the file system the code reads: \<^verbatim>\<open>os.path.isdir\<close>, \<^verbatim>\<open>os.path.isfile\<close>,
  \<^verbatim>\<open>os.listdir\<close>, the lines of a text file (each with its line terminator, as iterating over a file
  yields them) and the size of an image file (\<open>None\<close> when PIL cannot open it).
\<close>

record filesystem =
  isdir :: "string \<Rightarrow> bool"
  isfile :: "string \<Rightarrow> bool"
  listdir :: "string \<Rightarrow> string list"
  readlines :: "string \<Rightarrow> string list"
  image_size :: "string \<Rightarrow> (int \<times> int) option"

text \<open>
  The pyrr vector and quaternion built from a list of floats. The constructors accept
  a list of exactly three (for the quaternion, four) numbers and keep them as they
  are; a list of any other length is a \<open>ValueError\<close>. The type \<open>'f\<close> stands for
  Python's floats.
\<close>

datatype 'f Vector3 = Vector3 "'f list"

datatype 'f Quaternion = Quaternion "'f list"

definition Vector3_new :: "'f list \<Rightarrow> error + 'f Vector3" where
  "Vector3_new xs = (if length xs = 3 then Inr (Vector3 xs) else Inl ValueError)"

definition Quaternion_new :: "'f list \<Rightarrow> error + 'f Quaternion" where
  "Quaternion_new xs = (if length xs = 4 then Inr (Quaternion xs) else Inl ValueError)"

record 'f BackgroundAnnotations =
  translation :: "'f Vector3"
  orientation :: "'f Quaternion"

text \<open>\<^verbatim>\<open>str.split(sep)\<close> with a one-character separator: never an empty list.\<close>

fun split_on :: "char \<Rightarrow> string \<Rightarrow> string list" where
  "split_on sep [] = [[]]"
| "split_on sep (c # cs) =
     (if c = sep then [] # split_on sep cs
      else case split_on sep cs of
        [] \<Rightarrow> [[c]]
      | w # ws \<Rightarrow> (c # w) # ws)"

text \<open>
  \<^verbatim>\<open>str.strip()\<close>: drops whitespace at both ends. A string is a list of code points
  below 256, and the whitespace characters are all those of Python in that range: tab,
  line feed, vertical tab, form feed, carriage return, the four separators \<open>0x1C\<close> to
  \<open>0x1F\<close>, space, next line (\<open>0x85\<close>) and no-break space (\<open>0xA0\<close>).
\<close>

definition is_space :: "char \<Rightarrow> bool" where
  "is_space c = (c \<in> set [CHR 0x09, CHR 0x0A, CHR 0x0B, CHR 0x0C, CHR 0x0D,
                            CHR 0x1C, CHR 0x1D, CHR 0x1E, CHR 0x1F, CHR 0x20,
                            CHR 0x85, CHR 0xA0])"

definition strip :: "string \<Rightarrow> string" where
  "strip s = rev (dropWhile is_space (rev (dropWhile is_space s)))"

text \<open>
  \<^verbatim>\<open>[float(x) for x in xs]\<close>: \<open>float_of\<close> is Python's \<^verbatim>\<open>float()\<close> on a string, \<open>None\<close> where
  it raises \<open>ValueError\<close>; the first failure ends the comprehension.
\<close>

fun floats :: "(string \<Rightarrow> 'f option) \<Rightarrow> string list \<Rightarrow> error + 'f list" where
  "floats float_of [] = Inr []"
| "floats float_of (x # xs) =
     (case float_of x of
        None \<Rightarrow> Inl ValueError
      | Some v \<Rightarrow>
          (case floats float_of xs of
             Inl e \<Rightarrow> Inl e
           | Inr vs \<Rightarrow> Inr (v # vs)))"

text \<open>
  The loop over the lines after the header. \<^verbatim>\<open>items[1:4]\<close> are the (at most) three
  fields after the first, \<^verbatim>\<open>items[4::]\<close> all the fields after those. The translation
  is converted and built first, then the orientation; the entry is stored under the
  stripped first field, a later line replacing an earlier one of the same name.
\<close>

fun parse_lines ::
  "(string \<Rightarrow> 'f option) \<Rightarrow> string list \<Rightarrow> (string \<Rightarrow> 'f BackgroundAnnotations option) \<Rightarrow>
     error + (string \<Rightarrow> 'f BackgroundAnnotations option)" where
  "parse_lines float_of [] annotations = Inr annotations"
| "parse_lines float_of (line # rest) annotations =
     (case split_on CHR '','' line of
        [] \<Rightarrow> Inl IndexError
      | name # nums \<Rightarrow>
          (case floats float_of (take 3 nums) of
             Inl e \<Rightarrow> Inl e
           | Inr t \<Rightarrow>
               (case Vector3_new t of
                  Inl e \<Rightarrow> Inl e
                | Inr tv \<Rightarrow>
                    (case floats float_of (drop 3 nums) of
                       Inl e \<Rightarrow> Inl e
                     | Inr q \<Rightarrow>
                         (case Quaternion_new q of
                            Inl e \<Rightarrow> Inl e
                          | Inr qv \<Rightarrow>
                              parse_lines float_of rest
                                (annotations(strip name \<mapsto>
                                   \<lparr>translation = tv, orientation = qv\<rparr>)))))))"

definition parse_annotations ::
  "filesystem \<Rightarrow> (string \<Rightarrow> 'f option) \<Rightarrow> string \<Rightarrow>
     error + (string \<Rightarrow> 'f BackgroundAnnotations option)" where
  "parse_annotations fs float_of path =
     (if \<not> isfile fs path then Inl (Exception ''Annotations file not found'')
      else parse_lines float_of (drop 1 (readlines fs path)) Map.empty)"

text \<open>
  What the specification says of one line \<^verbatim>\<open>filename, tx, ty, tz, qx, qy, qz, qw\<close>: its
  numeric fields are the fields after the first; the line is well formed when there
  are seven of them and \<^verbatim>\<open>float()\<close> accepts each; and it stands for the pose of the
  first three of them (the translation) and the rest (the orientation), under the
  file name.
\<close>

definition numeric_fields :: "string \<Rightarrow> string list" where
  "numeric_fields line = drop 1 (split_on CHR '','' line)"

definition well_formed_line :: "(string \<Rightarrow> 'f option) \<Rightarrow> string \<Rightarrow> bool" where
  "well_formed_line float_of line =
     (length (numeric_fields line) = 7
      \<and> (\<forall>x\<in>set (numeric_fields line). float_of x \<noteq> None))"

definition line_entry ::
  "(string \<Rightarrow> 'f option) \<Rightarrow> string \<Rightarrow> string \<times> 'f BackgroundAnnotations" where
  "line_entry float_of line =
     (strip (hd (split_on CHR '','' line)),
      \<lparr>translation = Vector3 (map (the \<circ> float_of) (take 3 (numeric_fields line))),
       orientation = Quaternion (map (the \<circ> float_of) (drop 3 (numeric_fields line)))\<rparr>)"

subsection \<open>A concrete file system\<close>

text \<open>
  Five background directories for the concrete runs below, each with an
  \<^verbatim>\<open>annotations.csv\<close>: \<^verbatim>\<open>bg\<close> holds one annotated image; \<^verbatim>\<open>bg2\<close> an annotated and an
  unannotated image; \<^verbatim>\<open>bg3\<close> one unannotated image; the annotations of \<^verbatim>\<open>bad\<close> have a
  field that is not a number, and those of \<^verbatim>\<open>blank\<close> end with an empty line.
  \<open>toy_float\<close> is \<^verbatim>\<open>float()\<close> cut down to the two literals
  these files use (surrounding whitespace allowed, as \<^verbatim>\<open>float()\<close> allows it).
\<close>

definition toy_float :: "string \<Rightarrow> int option" where
  "toy_float s =
     (if strip s = ''0'' then Some 0 else if strip s = ''1'' then Some 1 else None)"

definition example_header :: string where
  "example_header = ''filename,tx,ty,tz,qx,qy,qz,qw'' @ [CHR 0x0A]"

definition example_fs :: filesystem where
  "example_fs =
     \<lparr>isdir = (\<lambda>p. p \<in> set [''bg'', ''bg2'', ''bg3'', ''bad'', ''blank'']),
      isfile = (\<lambda>p. p \<in> set [''bg/a.png'', ''bg/annotations.csv'',
                                ''bg2/a.png'', ''bg2/b.png'', ''bg2/annotations.csv'',
                                ''bg3/b.png'', ''bg3/annotations.csv'',
                                ''bad/annotations.csv'', ''blank/annotations.csv'']),
      listdir = (\<lambda>p. if p = ''bg'' then [''a.png'', ''annotations.csv'']
                     else if p = ''bg2'' then [''a.png'', ''b.png'', ''annotations.csv'']
                     else if p = ''bg3'' then [''b.png'', ''annotations.csv'']
                     else if p = ''bad'' then [''annotations.csv'']
                     else if p = ''blank'' then [''annotations.csv'']
                     else []),
      readlines = (\<lambda>p. if p = ''bg/annotations.csv'' \<or> p = ''bg2/annotations.csv''
                         then [example_header, ''a.png,0,0,0,0,0,0,1'' @ [CHR 0x0A]]
                       else if p = ''bg3/annotations.csv'' then [example_header]
                       else if p = ''bad/annotations.csv''
                         then [example_header, ''a.png,0,0,x,0,0,0,1'' @ [CHR 0x0A]]
                       else if p = ''blank/annotations.csv''
                         then [example_header, ''a.png,0,0,0,0,0,0,1'' @ [CHR 0x0A],
                               [CHR 0x0A]]
                       else []),
      image_size = (\<lambda>p. if p \<in> set [''bg/a.png'', ''bg2/a.png'', ''bg2/b.png'', ''bg3/b.png'']
                          then Some (640, 480) else None)\<rparr>"

section \<open>The background dataset (\<^verbatim>\<open>Dataset.__init__\<close>, \<^verbatim>\<open>Dataset.load\<close>)\<close>

text \<open>
  How a call ends: it returns a value, raises an exception, leaves the process through
  \<^verbatim>\<open>sys.exit\<close>, blocks for ever on a queue, or (\<open>OutOfDraws\<close>) is still looping when the
  random draws given to the model are used up.
\<close>

datatype 'a outcome = Returns 'a | Raises error | Exits int | Blocks | OutOfDraws

text \<open>
  The Python values that are passed around untyped; \<open>PyRef\<close> is a reference to an
  object by its address.
\<close>

datatype pyval =
    PyNone
  | PyBool bool
  | PyInt int
  | PyStr string
  | PyTuple "pyval list"
  | PyList "pyval list"
  | PyRef nat

text \<open>
  \<^verbatim>\<open>queue.Queue\<close>, unbounded: the items in order and the counter of unfinished tasks.
  \<^verbatim>\<open>put\<close> appends and counts one task more; \<^verbatim>\<open>task_done\<close> counts one less and raises
  \<open>ValueError\<close> below zero; \<^verbatim>\<open>get\<close> takes the first item and blocks (\<open>None\<close>) on an empty
  queue; \<^verbatim>\<open>join\<close> returns only when no task is unfinished.
\<close>

record 'a pyqueue =
  items :: "'a list"
  unfinished_tasks :: nat

definition Queue_new :: "'a pyqueue" where
  "Queue_new = \<lparr>items = [], unfinished_tasks = 0\<rparr>"

definition Queue_put :: "'a pyqueue \<Rightarrow> 'a \<Rightarrow> 'a pyqueue" where
  "Queue_put q x = q\<lparr>items := items q @ [x], unfinished_tasks := unfinished_tasks q + 1\<rparr>"

definition Queue_task_done :: "'a pyqueue \<Rightarrow> error + 'a pyqueue" where
  "Queue_task_done q =
     (if unfinished_tasks q = 0 then Inl ValueError
      else Inr (q\<lparr>unfinished_tasks := unfinished_tasks q - 1\<rparr>))"

definition Queue_get :: "'a pyqueue \<Rightarrow> ('a \<times> 'a pyqueue) option" where
  "Queue_get q = (case items q of [] \<Rightarrow> None | x # xs \<Rightarrow> Some (x, q\<lparr>items := xs\<rparr>))"

definition Queue_empty :: "'a pyqueue \<Rightarrow> bool" where
  "Queue_empty q = (items q = [])"

definition Queue_join_returns :: "'a pyqueue \<Rightarrow> bool" where
  "Queue_join_returns q = (unfinished_tasks q = 0)"

datatype 'f BackgroundImage =
  BackgroundImage (image_path: string) (annotations: "'f BackgroundAnnotations")

record 'a Dataset =
  path :: string
  width :: "int option"
  height :: "int option"
  data :: "'a pyqueue"

definition Dataset_init :: "filesystem \<Rightarrow> string \<Rightarrow> error + 'a Dataset" where
  "Dataset_init fs p =
     (if \<not> isdir fs p then Inl (Exception ''Dataset directory not found'')
      else Inr \<lparr>path = p, width = None, height = None, data = Queue_new\<rparr>)"

text \<open>\<^verbatim>\<open>os.path.join\<close> of two components (POSIX).\<close>

definition path_join :: "string \<Rightarrow> string \<Rightarrow> string" where
  "path_join a b =
     (if b \<noteq> [] \<and> hd b = CHR ''/'' then b
      else if a = [] \<or> last a = CHR ''/'' then a @ b
      else a @ CHR ''/'' # b)"

text \<open>
  The padding loop of \<open>load\<close>: while \<^verbatim>\<open>count >= len(files)\<close> it draws an entry of the list
  with \<^verbatim>\<open>random.choice\<close> (an \<open>IndexError\<close> on an empty list) and appends it when it is a
  regular file other than the annotations file. Each draw \<open>r\<close> of \<open>draws\<close> selects the
  entry at index \<open>r mod len(files)\<close>.
\<close>

fun pad_files ::
  "filesystem \<Rightarrow> string \<Rightarrow> string option \<Rightarrow> int \<Rightarrow> nat list \<Rightarrow> string list \<Rightarrow>
     string list outcome" where
  "pad_files fs dir annotations_path count [] files =
     (if count \<ge> int (length files) then
        (if files = [] then Raises IndexError else OutOfDraws)
      else Returns files)"
| "pad_files fs dir annotations_path count (r # draws) files =
     (if count \<ge> int (length files) then
        (if files = [] then Raises IndexError
         else
           let choice = files ! (r mod length files);
               full_path = path_join dir choice
           in if isfile fs full_path \<and> Some full_path \<noteq> annotations_path
              then pad_files fs dir annotations_path count draws (files @ [choice])
              else pad_files fs dir annotations_path count draws files)
      else Returns files)"

text \<open>\<^verbatim>\<open>not x\<close> on an attribute that is \<^verbatim>\<open>None\<close> or an integer.\<close>

definition py_not :: "int option \<Rightarrow> bool" where
  "py_not x = (x = None \<or> x = Some 0)"

text \<open>
  The staging loop of \<open>load\<close> over the padded list: an eligible file with no annotation
  is counted and skipped; one with an annotation is put on the queue (and the task
  marked done at once), and the image size is read from it while no size is known.
\<close>

fun stage ::
  "filesystem \<Rightarrow> string \<Rightarrow> string option \<Rightarrow> (string \<Rightarrow> 'f BackgroundAnnotations option) \<Rightarrow>
     string list \<Rightarrow> 'f BackgroundImage Dataset \<Rightarrow> nat \<Rightarrow>
     error + ('f BackgroundImage Dataset \<times> nat)" where
  "stage fs dir annotations_path anns [] ds not_found = Inr (ds, not_found)"
| "stage fs dir annotations_path anns (f # files) ds not_found =
     (let full_path = path_join dir f in
      if isfile fs full_path \<and> Some full_path \<noteq> annotations_path then
        (case anns f of
           None \<Rightarrow> stage fs dir annotations_path anns files ds (not_found + 1)
         | Some a \<Rightarrow>
             (case Queue_task_done (Queue_put (data ds) (BackgroundImage full_path a)) of
                Inl e \<Rightarrow> Inl e
              | Inr q \<Rightarrow>
                  (if py_not (width ds) \<and> py_not (height ds) then
                     (case image_size fs full_path of
                        None \<Rightarrow> Inl OSError
                      | Some (w, h) \<Rightarrow>
                          stage fs dir annotations_path anns files
                            (ds\<lparr>data := q, width := Some w, height := Some h\<rparr>) not_found)
                   else stage fs dir annotations_path anns files (ds\<lparr>data := q\<rparr>) not_found)))
      else stage fs dir annotations_path anns files ds not_found)"

text \<open>
  \<open>load\<close>. \<open>shuffle\<close> is the permutation \<^verbatim>\<open>random.shuffle\<close> applies to the listing and
  \<open>draws\<close> are the draws of \<^verbatim>\<open>random.choice\<close>. The result holds the dataset, the number
  printed as "annotations could not be found", and the value returned, which is
  \<^verbatim>\<open>None\<close>: the function has no \<^verbatim>\<open>return\<close>. An annotations path of \<^verbatim>\<open>None\<close> (the default)
  is a \<open>TypeError\<close> in \<^verbatim>\<open>os.path.isfile\<close>.
\<close>

definition load ::
  "filesystem \<Rightarrow> (string \<Rightarrow> 'f option) \<Rightarrow> (string list \<Rightarrow> string list) \<Rightarrow> nat list \<Rightarrow>
     'f BackgroundImage Dataset \<Rightarrow> int \<Rightarrow> string option \<Rightarrow>
     ('f BackgroundImage Dataset \<times> nat \<times> pyval) outcome" where
  "load fs float_of shuffle draws ds count annotations_path =
     (let files = shuffle (listdir fs (path ds)) in
      case pad_files fs (path ds) annotations_path count draws files of
        Returns files \<Rightarrow>
          (case annotations_path of
             None \<Rightarrow> Raises TypeError
           | Some ap \<Rightarrow>
               (case parse_annotations fs float_of ap of
                  Inl e \<Rightarrow> Raises e
                | Inr anns \<Rightarrow>
                    (case stage fs (path ds) annotations_path anns files ds 0 of
                       Inl e \<Rightarrow> Raises e
                     | Inr (ds', not_found) \<Rightarrow>
                         if Queue_join_returns (data ds') then Returns (ds', not_found, PyNone)
                         else Blocks)))
      | Raises e \<Rightarrow> Raises e
      | Exits n \<Rightarrow> Exits n
      | Blocks \<Rightarrow> Blocks
      | OutOfDraws \<Rightarrow> OutOfDraws)"

text \<open>
  A directory entry is eligible when it is a regular file other than the annotations
  file; \<open>unmatched\<close> are the eligible entries with no annotation, \<open>matched\<close> those with
  one.
\<close>

definition eligible :: "filesystem \<Rightarrow> string \<Rightarrow> string option \<Rightarrow> string \<Rightarrow> bool" where
  "eligible fs dir annotations_path f =
     (isfile fs (path_join dir f) \<and> Some (path_join dir f) \<noteq> annotations_path)"

definition unmatched ::
  "filesystem \<Rightarrow> string \<Rightarrow> string option \<Rightarrow> (string \<Rightarrow> 'b option) \<Rightarrow> string list \<Rightarrow> string list" where
  "unmatched fs dir annotations_path anns files =
     filter (\<lambda>f. eligible fs dir annotations_path f \<and> anns f = None) files"

definition matched ::
  "filesystem \<Rightarrow> string \<Rightarrow> string option \<Rightarrow> (string \<Rightarrow> 'b option) \<Rightarrow> string list \<Rightarrow> string list" where
  "matched fs dir annotations_path anns files =
     filter (\<lambda>f. eligible fs dir annotations_path f \<and> anns f \<noteq> None) files"

text \<open>A dataset as \<^verbatim>\<open>Dataset(path)\<close> leaves it, for the concrete runs.\<close>

definition example_dataset :: "string \<Rightarrow> 'a Dataset" where
  "example_dataset p = \<lparr>path = p, width = None, height = None, data = Queue_new\<rparr>"

definition example_pose :: "int BackgroundAnnotations" where
  "example_pose = \<lparr>translation = Vector3 [0, 0, 0], orientation = Quaternion [0, 0, 0, 1]\<rparr>"

section \<open>The factory (\<^verbatim>\<open>DatasetFactory.__init__\<close>)\<close>

text \<open>
  Truth of a Python value, as \<^verbatim>\<open>if not x\<close> tests it.
\<close>

fun truthy :: "pyval \<Rightarrow> bool" where
  "truthy PyNone = False"
| "truthy (PyBool b) = b"
| "truthy (PyInt n) = (n \<noteq> 0)"
| "truthy (PyStr s) = (s \<noteq> [])"
| "truthy (PyTuple vs) = (vs \<noteq> [])"
| "truthy (PyList vs) = (vs \<noteq> [])"
| "truthy (PyRef a) = True"

text \<open>
  A call \<^verbatim>\<open>Dataset(...)\<close> with its positional and keyword arguments. The class takes one
  parameter, \<^verbatim>\<open>path\<close>: any other shape of call is a \<open>TypeError\<close> raised before the
  constructor's body runs.
\<close>

definition Dataset_call ::
  "filesystem \<Rightarrow> pyval list \<Rightarrow> (string \<times> pyval) list \<Rightarrow> error + 'a Dataset" where
  "Dataset_call fs positional keywords =
     (case (positional, keywords) of
        ([PyStr p], []) \<Rightarrow> Dataset_init fs p
      | ([], [(k, PyStr p)]) \<Rightarrow> if k = ''path'' then Dataset_init fs p else Inl TypeError
      | _ \<Rightarrow> Inl TypeError)"

text \<open>\<^verbatim>\<open>SyntheticAnnotations(center, orientation, on_screen)\<close> and \<^verbatim>\<open>AnnotatedImage\<close>.\<close>

datatype SyntheticAnnotations = SyntheticAnnotations pyval pyval pyval

definition SyntheticAnnotations_call :: "pyval list \<Rightarrow> error + SyntheticAnnotations" where
  "SyntheticAnnotations_call positional =
     (case positional of
        [c, ori, s] \<Rightarrow> Inr (SyntheticAnnotations c ori s)
      | _ \<Rightarrow> Inl TypeError)"

datatype 'img AnnotatedImage =
  AnnotatedImage (image_of: 'img) (sample_id: pyval) (sample_annotations: SyntheticAnnotations)

text \<open>
  The command line arguments the constructor reads, and the factory it builds. The
  sample queue holds annotated images and the sentinel \<^verbatim>\<open>None\<close> (\<open>None\<close> here as well).
\<close>

record args =
  arg_dataset :: string
  arg_destination :: string
  arg_nb_images :: int
  arg_threads :: int
  arg_resolution :: string
  arg_verbose :: bool
  arg_extra_verbose :: bool
  arg_seed :: pyval
  arg_blur_threshold :: int
  arg_no_blur :: bool

record ('img, 'f) DatasetFactory =
  nb_threads :: int
  factory_count :: int
  verbose :: bool
  extra_verbose :: bool
  max_blur :: int
  blur_disabled :: bool
  background_dataset :: "'f BackgroundImage Dataset"
  generated_dataset :: "'img AnnotatedImage option Dataset"
  factory_base_width :: "int option"
  factory_base_height :: "int option"
  target_width :: int
  target_height :: int
  sample_no :: nat
  visible_gates :: nat

text \<open>
  \<^verbatim>\<open>[int(x) for x in args.resolution.split('x')]\<close> unpacked into two names; \<open>int_of\<close> is
  \<^verbatim>\<open>int()\<close> on a string. A part that is no integer, or a number of parts other than
  two, is a \<open>ValueError\<close>.
\<close>

definition parse_resolution :: "(string \<Rightarrow> int option) \<Rightarrow> string \<Rightarrow> error + (int \<times> int)" where
  "parse_resolution int_of res =
     (let parts = map int_of (split_on CHR ''x'' res) in
      if None \<in> set parts then Inl ValueError
      else case parts of
        [Some w, Some h] \<Rightarrow> Inr (w, h)
      | _ \<Rightarrow> Inl ValueError)"

text \<open>
  The constructor from the call of \<open>load\<close> on (lines 80 to 90), given the background
  dataset: it leaves with \<^verbatim>\<open>sys.exit(1)\<close> when the value \<open>load\<close> returns is not true.
\<close>

definition factory_init_from ::
  "filesystem \<Rightarrow> (string \<Rightarrow> 'f option) \<Rightarrow> (string \<Rightarrow> int option) \<Rightarrow>
     (string list \<Rightarrow> string list) \<Rightarrow> nat list \<Rightarrow> args \<Rightarrow> 'f BackgroundImage Dataset \<Rightarrow>
     ('img, 'f) DatasetFactory outcome" where
  "factory_init_from fs float_of int_of shuffle draws a bg =
     (case load fs float_of shuffle draws bg (arg_nb_images a)
             (Some (path_join (arg_dataset a) ''annotations.csv'')) of
        Returns (bg', not_found, loaded) \<Rightarrow>
          (if \<not> truthy loaded then Exits 1
           else case Dataset_call fs [PyStr (arg_destination a)] [(''max'', PyInt 100)] of
             Inl e \<Rightarrow> Raises e
           | Inr gen \<Rightarrow>
               (case parse_resolution int_of (arg_resolution a) of
                  Inl e \<Rightarrow> Raises e
                | Inr (tw, th) \<Rightarrow>
                    Returns
                      \<lparr>nb_threads = arg_threads a,
                       factory_count = arg_nb_images a,
                       verbose = (arg_verbose a \<or> arg_extra_verbose a),
                       extra_verbose = arg_extra_verbose a,
                       max_blur = arg_blur_threshold a,
                       blur_disabled = arg_no_blur a,
                       background_dataset = bg',
                       generated_dataset = gen,
                       factory_base_width = width bg',
                       factory_base_height = height bg',
                       target_width = tw,
                       target_height = th,
                       sample_no = 0,
                       visible_gates = 0\<rparr>))
      | Raises e \<Rightarrow> Raises e
      | Exits n \<Rightarrow> Exits n
      | Blocks \<Rightarrow> Blocks
      | OutOfDraws \<Rightarrow> OutOfDraws)"

text \<open>
  The constructor: the background dataset is built by \<^verbatim>\<open>Dataset(args.dataset, args.seed)\<close>,
  a call with two positional arguments.
\<close>

definition DatasetFactory_init ::
  "filesystem \<Rightarrow> (string \<Rightarrow> 'f option) \<Rightarrow> (string \<Rightarrow> int option) \<Rightarrow>
     (string list \<Rightarrow> string list) \<Rightarrow> nat list \<Rightarrow> args \<Rightarrow> ('img, 'f) DatasetFactory outcome" where
  "DatasetFactory_init fs float_of int_of shuffle draws a =
     (case Dataset_call fs [PyStr (arg_dataset a), arg_seed a] [] of
        Inl e \<Rightarrow> Raises e
      | Inr bg \<Rightarrow> factory_init_from fs float_of int_of shuffle draws a bg)"

text \<open>
  The status the process ends with, when it ends: an uncaught exception ends the
  interpreter with status 1, \<^verbatim>\<open>sys.exit(n)\<close> with status \<open>n\<close>.
\<close>

fun exit_status :: "'a outcome \<Rightarrow> int option" where
  "exit_status (Returns x) = None"
| "exit_status (Raises e) = Some 1"
| "exit_status (Exits n) = Some n"
| "exit_status Blocks = None"
| "exit_status OutOfDraws = None"

definition example_args :: args where
  "example_args =
     \<lparr>arg_dataset = ''bg'', arg_destination = ''out'', arg_nb_images = 1, arg_threads = 4,
      arg_resolution = ''640x480'', arg_verbose = False, arg_extra_verbose = False,
      arg_seed = PyNone, arg_blur_threshold = 200, arg_no_blur = False\<rparr>"

section \<open>The scaling loop of \<^verbatim>\<open>DatasetFactory.generate\<close>\<close>

text \<open>
  Reading and writing a key of a dictionary object: \<^verbatim>\<open>v[k]\<close> is a \<open>KeyError\<close> when the
  key is missing and a \<open>TypeError\<close> when \<open>v\<close> is no dictionary; \<^verbatim>\<open>d[k] = x\<close> replaces the
  value of an existing key and appends a new key.
\<close>

fun dict_set :: "(string \<times> val) list \<Rightarrow> string \<Rightarrow> val \<Rightarrow> (string \<times> val) list" where
  "dict_set [] k x = [(k, x)]"
| "dict_set ((k', x') # d) k x =
     (if k' = k then (k, x) # d else (k', x') # dict_set d k x)"

definition getitem :: "heap \<Rightarrow> val \<Rightarrow> string \<Rightarrow> error + val" where
  "getitem h v k =
     (case v of
        Ref a \<Rightarrow>
          (case h a of
             Some (DictO d) \<Rightarrow> (case map_of d k of None \<Rightarrow> Inl KeyError | Some x \<Rightarrow> Inr x)
           | _ \<Rightarrow> Inl TypeError)
      | IntV n \<Rightarrow> Inl TypeError)"

definition setitem :: "heap \<Rightarrow> val \<Rightarrow> string \<Rightarrow> val \<Rightarrow> error + heap" where
  "setitem h v k x =
     (case v of
        Ref a \<Rightarrow>
          (case h a of
             Some (DictO d) \<Rightarrow> Inr (h(a \<mapsto> DictO (dict_set d k x)))
           | _ \<Rightarrow> Inl TypeError)
      | IntV n \<Rightarrow> Inl TypeError)"

text \<open>
  \<open>scale_coordinates\<close> called on a value: an integer cannot be indexed. In the loop,
  as in \<open>scale_coordinates\<close>, an exception comes with the store as it is at that point.
\<close>

definition scale_val ::
  "int option \<Rightarrow> int option \<Rightarrow> heap \<Rightarrow> val \<Rightarrow> int \<times> int \<Rightarrow>
     (error \<times> heap) + (heap \<times> addr)" where
  "scale_val bw bh h v tgt =
     (case v of
        Ref a \<Rightarrow> scale_coordinates bw bh h a tgt
      | IntV n \<Rightarrow> Inl (TypeError, h))"

text \<open>
  \<^verbatim>\<open>scaled_bbox[key][part] = self.scale_coordinates(val[part], output.size)\<close>: the right
  hand side first, then the target \<^verbatim>\<open>scaled_bbox[key]\<close>, then the store.
\<close>

definition scale_part ::
  "int option \<Rightarrow> int option \<Rightarrow> int \<times> int \<Rightarrow> addr \<Rightarrow> string \<Rightarrow> val \<Rightarrow> string \<Rightarrow> heap \<Rightarrow>
     (error \<times> heap) + heap" where
  "scale_part bw bh tgt bbox key v part h =
     (case getitem h v part of
        Inl e \<Rightarrow> Inl (e, h)
      | Inr c \<Rightarrow>
          (case scale_val bw bh h c tgt of
             Inl e \<Rightarrow> Inl e
           | Inr (h1, a) \<Rightarrow>
               (case getitem h1 (Ref bbox) key of
                  Inl e \<Rightarrow> Inl (e, h1)
                | Inr n \<Rightarrow>
                    (case setitem h1 n part (Ref a) of
                       Inl e \<Rightarrow> Inl (e, h1)
                     | Inr h2 \<Rightarrow> Inr h2))))"

text \<open>
  The body of the inner loop, for one item \<open>(key, val)\<close> of the bounding box at address
  \<open>bbox\<close>; \<open>scaled_bbox\<close> is the same object as \<open>bbox\<close>.
\<close>

definition scale_entry ::
  "int option \<Rightarrow> int option \<Rightarrow> int \<times> int \<Rightarrow> addr \<Rightarrow> heap \<Rightarrow> string \<times> val \<Rightarrow>
     (error \<times> heap) + heap" where
  "scale_entry bw bh tgt bbox h entry =
     (case entry of (key, v) \<Rightarrow>
        if key \<in> set [''min'', ''max''] then
          (case scale_val bw bh h v tgt of
             Inl e \<Rightarrow> Inl e
           | Inr (h1, a) \<Rightarrow>
               (case setitem h1 (Ref bbox) key (Ref a) of
                  Inl e \<Rightarrow> Inl (e, h1)
                | Inr h2 \<Rightarrow> Inr h2))
        else if key = ''normal'' then
          (case getitem h (Ref bbox) ''class_id'' of
             Inl e \<Rightarrow> Inl (e, h)
           | Inr cid \<Rightarrow>
               if cid \<noteq> IntV 2 then
                 (case scale_part bw bh tgt bbox key v ''origin'' h of
                    Inl e \<Rightarrow> Inl e
                  | Inr h1 \<Rightarrow> scale_part bw bh tgt bbox key v ''end'' h1)
               else Inr h)
        else Inr h)"

fun scale_entries ::
  "int option \<Rightarrow> int option \<Rightarrow> int \<times> int \<Rightarrow> addr \<Rightarrow> heap \<Rightarrow> (string \<times> val) list \<Rightarrow>
     (error \<times> heap) + heap" where
  "scale_entries bw bh tgt bbox h [] = Inr h"
| "scale_entries bw bh tgt bbox h (entry # entries) =
     (case scale_entry bw bh tgt bbox h entry of
        Inl e \<Rightarrow> Inl e
      | Inr h' \<Rightarrow> scale_entries bw bh tgt bbox h' entries)"

text \<open>
  The outer loop over the bounding boxes the renderer returned (addresses of
  dictionaries); \<open>scaled_bboxes\<close> collects \<open>scaled_bbox\<close>, which the code binds to \<open>bbox\<close>
  itself. The items of a bounding box are those it has when its turn comes.
\<close>

fun scale_bboxes ::
  "int option \<Rightarrow> int option \<Rightarrow> int \<times> int \<Rightarrow> heap \<Rightarrow> addr list \<Rightarrow> addr list \<Rightarrow>
     (error \<times> heap) + (heap \<times> addr list)" where
  "scale_bboxes bw bh tgt h [] scaled_bboxes = Inr (h, scaled_bboxes)"
| "scale_bboxes bw bh tgt h (bbox # bboxes) scaled_bboxes =
     (case h bbox of
        Some (DictO d) \<Rightarrow>
          (case scale_entries bw bh tgt bbox h d of
             Inl e \<Rightarrow> Inl e
           | Inr h' \<Rightarrow> scale_bboxes bw bh tgt h' bboxes (scaled_bboxes @ [bbox]))
      | _ \<Rightarrow> Inl (AttributeError, h))"

text \<open>
  For the statements: the list a pair of base dimensions and a target size turn a
  coordinate list into, the store with the list at one address scaled, and the
  addresses of the coordinate lists the loop scales for a bounding box, in order.
\<close>

definition scaled_list :: "int \<Rightarrow> int \<Rightarrow> int \<times> int \<Rightarrow> int list \<Rightarrow> int list" where
  "scaled_list Wb Hb tgt xs =
     xs[0 := py_int_quot (xs ! 0 * fst tgt) Wb, 1 := py_int_quot (xs ! 1 * snd tgt) Hb]"

definition scale_at :: "int \<Rightarrow> int \<Rightarrow> int \<times> int \<Rightarrow> addr \<Rightarrow> heap \<Rightarrow> heap" where
  "scale_at Wb Hb tgt a h =
     (case h a of
        Some (ListO xs) \<Rightarrow> h(a \<mapsto> ListO (scaled_list Wb Hb tgt xs))
      | _ \<Rightarrow> h)"

definition ref_addrs :: "error + val \<Rightarrow> addr list" where
  "ref_addrs r = (case r of Inr (Ref a) \<Rightarrow> [a] | _ \<Rightarrow> [])"

definition entry_addrs :: "heap \<Rightarrow> addr \<Rightarrow> string \<times> val \<Rightarrow> addr list" where
  "entry_addrs h bbox entry =
     (case entry of (key, v) \<Rightarrow>
        if key \<in> set [''min'', ''max''] then ref_addrs (Inr v)
        else if key = ''normal'' \<and> getitem h (Ref bbox) ''class_id'' \<noteq> Inr (IntV 2)
          then ref_addrs (getitem h v ''origin'') @ ref_addrs (getitem h v ''end'')
        else [])"

definition bbox_addrs :: "heap \<Rightarrow> addr \<Rightarrow> addr list" where
  "bbox_addrs h bbox =
     (case h bbox of
        Some (DictO d) \<Rightarrow> concat (map (entry_addrs h bbox) d)
      | _ \<Rightarrow> [])"

text \<open>Every dictionary of the store has each key once, as Python's dictionaries do.\<close>

definition dicts_ok :: "heap \<Rightarrow> bool" where
  "dicts_ok h = (\<forall>a d. h a = Some (DictO d) \<longrightarrow> distinct (map fst d))"

text \<open>Two stores hold the same dictionaries at the same addresses.\<close>

definition same_dicts :: "heap \<Rightarrow> heap \<Rightarrow> bool" where
  "same_dicts h h' = (\<forall>a d. (h a = Some (DictO d)) = (h' a = Some (DictO d)))"

text \<open>
  A store with one bounding box of a gate (class 1) at address 0: its corners at
  addresses 1 and 2, its normal at address 3 with origin and end at 4 and 5.
\<close>

definition example_heap :: heap where
  "example_heap =
     [0 \<mapsto> DictO [(''class_id'', IntV 1), (''min'', Ref 1), (''max'', Ref 2), (''normal'', Ref 3)],
      1 \<mapsto> ListO [100, 50],
      2 \<mapsto> ListO [300, 250],
      3 \<mapsto> DictO [(''origin'', Ref 4), (''end'', Ref 5)],
      4 \<mapsto> ListO [200, 150],
      5 \<mapsto> ListO [201, 151]]"

section \<open>Generation and persistence (\<^verbatim>\<open>generate\<close>, \<^verbatim>\<open>run\<close>, \<^verbatim>\<open>run_multi_threaded\<close>, \<^verbatim>\<open>save\<close>)\<close>

text \<open>
  The collaborators outside the two modules, as parameters: the renderer
  (\<^verbatim>\<open>set_drone_pose\<close> and \<^verbatim>\<open>generate\<close> of the renderer at an address, which returns the
  projection and the bounding boxes it has allocated in the store), the blur and noise
  applied to a projection over a background file, the compositing (which returns the
  output and its size), and the drawing of verbose mode. Each may raise.
\<close>

record ('img, 'f) externals =
  ext_render :: "nat \<Rightarrow> 'f BackgroundAnnotations \<Rightarrow> heap \<Rightarrow> error + ('img \<times> addr list \<times> heap)"
  ext_augment :: "'img \<Rightarrow> string \<Rightarrow> error + 'img"
  ext_combine :: "'img \<Rightarrow> string \<Rightarrow> error + ('img \<times> (int \<times> int))"
  ext_draw_boxes :: "heap \<Rightarrow> addr list \<Rightarrow> 'img \<Rightarrow> error + 'img"
  ext_draw_text :: "'img \<Rightarrow> error + 'img"

text \<open>
  \<open>generate(index, projector)\<close>. The result is how the call ends, with the factory and
  the store it leaves. The call takes a background from the queue (and blocks on an
  empty one), renders, blurs and counts a visible gate, composites, scales the bounding
  boxes in place, draws, and builds the sample to put on the sample queue; the
  annotations of the sample are built by \<^verbatim>\<open>SyntheticAnnotations(scaled_bboxes)\<close>, a call
  with one argument. When the scaling loop raises, the store of the result is the one
  the loop has reached, with the coordinates it has already overwritten.
\<close>

definition generate ::
  "('img, 'f) externals \<Rightarrow> ('img, 'f) DatasetFactory \<Rightarrow> heap \<Rightarrow> pyval \<Rightarrow> pyval \<Rightarrow>
     unit outcome \<times> ('img, 'f) DatasetFactory \<times> heap" where
  "generate ext f h index projector =
     (case Queue_get (data (background_dataset f)) of
        None \<Rightarrow> (Blocks, f, h)
      | Some (background, q) \<Rightarrow>
          let f1 = f\<lparr>background_dataset := (background_dataset f)\<lparr>data := q\<rparr>\<rparr> in
          (case projector of
             PyRef k \<Rightarrow>
               (case ext_render ext k (annotations background) h of
                  Inl e \<Rightarrow> (Raises e, f1, h)
                | Inr (projection, bboxes, h1) \<Rightarrow>
                    let gate_visible = (length bboxes > 0) in
                    (case (if gate_visible
                           then ext_augment ext projection (image_path background)
                           else Inr projection) of
                       Inl e \<Rightarrow> (Raises e, f1, h1)
                     | Inr projection' \<Rightarrow>
                         let f2 = (if gate_visible
                                   then f1\<lparr>visible_gates := visible_gates f1 + 1\<rparr> else f1) in
                         (case ext_combine ext projection' (image_path background) of
                            Inl e \<Rightarrow> (Raises e, f2, h1)
                          | Inr (output, output_size) \<Rightarrow>
                              (case scale_bboxes (factory_base_width f2) (factory_base_height f2)
                                      output_size h1 bboxes [] of
                                 Inl (e, h2) \<Rightarrow> (Raises e, f2, h2)
                               | Inr (h2, scaled_bboxes) \<Rightarrow>
                                   (case (if verbose f2 \<and> gate_visible
                                          then ext_draw_boxes ext h2 scaled_bboxes output
                                          else Inr output) of
                                      Inl e \<Rightarrow> (Raises e, f2, h2)
                                    | Inr output1 \<Rightarrow>
                                        (case (if extra_verbose f2 then ext_draw_text ext output1
                                               else Inr output1) of
                                           Inl e \<Rightarrow> (Raises e, f2, h2)
                                         | Inr output2 \<Rightarrow>
                                             (case SyntheticAnnotations_call
                                                     [PyList (map PyRef scaled_bboxes)] of
                                                Inl e \<Rightarrow> (Raises e, f2, h2)
                                              | Inr sa \<Rightarrow>
                                                  (Returns (),
                                                   f2\<lparr>generated_dataset :=
                                                        (generated_dataset f2)
                                                          \<lparr>data := Queue_put (data (generated_dataset f2))
                                                             (Some (AnnotatedImage output2 index sa))\<rparr>\<rparr>,
                                                   h2))))))))
           | _ \<Rightarrow> (Raises AttributeError, f1, h)))"

text \<open>
  A call of the bound method \<^verbatim>\<open>self.generate\<close> with a list of positional arguments: the
  method takes two, \<open>index\<close> and \<open>projector\<close>.
\<close>

definition generate_call ::
  "('img, 'f) externals \<Rightarrow> ('img, 'f) DatasetFactory \<Rightarrow> heap \<Rightarrow> pyval list \<Rightarrow>
     unit outcome \<times> ('img, 'f) DatasetFactory \<times> heap" where
  "generate_call ext f h positional =
     (case positional of
        [index, projector] \<Rightarrow> generate ext f h index projector
      | _ \<Rightarrow> (Raises TypeError, f, h))"

text \<open>
  \<open>_save_one\<close>, for a worker that runs alone on the queue: while the queue is not
  empty it takes an item, saves its image under \<^verbatim>\<open>path + str(id) + '.png'\<close> and marks
  the task done. The attribute \<^verbatim>\<open>image\<close> of \<^verbatim>\<open>None\<close> is an \<open>AttributeError\<close>. The result
  holds the queue and the files written; \<open>str_of\<close> is \<^verbatim>\<open>str\<close>.
\<close>

fun save_one_loop ::
  "(pyval \<Rightarrow> string) \<Rightarrow> string \<Rightarrow> 'img AnnotatedImage option list \<Rightarrow> nat \<Rightarrow> (string \<times> 'img) list \<Rightarrow>
     unit outcome \<times> 'img AnnotatedImage option pyqueue \<times> (string \<times> 'img) list" where
  "save_one_loop str_of p [] u written =
     (Returns (), \<lparr>items = [], unfinished_tasks = u\<rparr>, written)"
| "save_one_loop str_of p (x # xs) u written =
     (case x of
        None \<Rightarrow> (Raises AttributeError, \<lparr>items = xs, unfinished_tasks = u\<rparr>, written)
      | Some annotatedImage \<Rightarrow>
          let written' = written @ [(p @ str_of (sample_id annotatedImage) @ ''.png'',
                                     image_of annotatedImage)]
          in if u = 0
             then (Raises ValueError, \<lparr>items = xs, unfinished_tasks = u\<rparr>, written')
             else save_one_loop str_of p xs (u - 1) written')"

definition save_one ::
  "(pyval \<Rightarrow> string) \<Rightarrow> 'img AnnotatedImage option Dataset \<Rightarrow> (string \<times> 'img) list \<Rightarrow>
     unit outcome \<times> 'img AnnotatedImage option Dataset \<times> (string \<times> 'img) list" where
  "save_one str_of ds written =
     (case save_one_loop str_of (path ds) (items (data ds)) (unfinished_tasks (data ds)) written of
        (res, q, written') \<Rightarrow> (res, ds\<lparr>data := q\<rparr>, written'))"

text \<open>
  \<open>save(nb_threads)\<close> with the workers run one after the other, each to its end (one
  of the schedules of the threads): an exception ends its worker only. Then
  \<^verbatim>\<open>self.data.join()\<close> returns when no task is unfinished, and blocks otherwise.
\<close>

fun run_workers ::
  "(pyval \<Rightarrow> string) \<Rightarrow> nat \<Rightarrow> 'img AnnotatedImage option Dataset \<Rightarrow> (string \<times> 'img) list \<Rightarrow>
     'img AnnotatedImage option Dataset \<times> (string \<times> 'img) list" where
  "run_workers str_of 0 ds written = (ds, written)"
| "run_workers str_of (Suc n) ds written =
     (case save_one str_of ds written of
        (res, ds', written') \<Rightarrow> run_workers str_of n ds' written')"

definition save ::
  "(pyval \<Rightarrow> string) \<Rightarrow> int \<Rightarrow> 'img AnnotatedImage option Dataset \<Rightarrow> (string \<times> 'img) list \<Rightarrow>
     unit outcome \<times> 'img AnnotatedImage option Dataset \<times> (string \<times> 'img) list" where
  "save str_of nb ds written =
     (case run_workers str_of (nat nb) ds written of
        (ds', written') \<Rightarrow>
          if Queue_join_returns (data ds') then (Returns (), ds', written')
          else (Blocks, ds', written'))"

text \<open>
  A call of the bound method \<^verbatim>\<open>save\<close> with a list of positional arguments: the method
  takes one, \<open>nb_threads\<close>.
\<close>

definition save_call ::
  "(pyval \<Rightarrow> string) \<Rightarrow> pyval list \<Rightarrow> 'img AnnotatedImage option Dataset \<Rightarrow> (string \<times> 'img) list \<Rightarrow>
     unit outcome \<times> 'img AnnotatedImage option Dataset \<times> (string \<times> 'img) list" where
  "save_call str_of positional ds written =
     (case positional of
        [PyInt nb] \<Rightarrow> save str_of nb ds written
      | _ \<Rightarrow> (Raises TypeError, ds, written))"

text \<open>The loop \<^verbatim>\<open>for i in range(count): self.generate(i, projector)\<close>.\<close>

fun generate_loop ::
  "('img, 'f) externals \<Rightarrow> pyval \<Rightarrow> ('img, 'f) DatasetFactory \<Rightarrow> heap \<Rightarrow> nat list \<Rightarrow>
     unit outcome \<times> ('img, 'f) DatasetFactory \<times> heap" where
  "generate_loop ext projector f h [] = (Returns (), f, h)"
| "generate_loop ext projector f h (i # rest) =
     (case generate_call ext f h [PyInt (int i), projector] of
        (Returns u, f', h') \<Rightarrow> generate_loop ext projector f' h' rest
      | other \<Rightarrow> other)"

text \<open>
  The end of both strategies: the sentinel \<^verbatim>\<open>None\<close> is put on the sample queue, the save
  thread is joined, and the visibility percentage \<^verbatim>\<open>visible_gates / count\<close> is printed,
  a \<open>ZeroDivisionError\<close> for a count of zero. \<open>thread\<close> is how the save thread ended.
\<close>

definition finish_run ::
  "unit outcome \<Rightarrow> ('img, 'f) DatasetFactory \<Rightarrow> heap \<Rightarrow>
     unit outcome \<times> ('img, 'f) DatasetFactory \<times> heap" where
  "finish_run thread f h =
     (let f' = f\<lparr>generated_dataset :=
                  (generated_dataset f)\<lparr>data := Queue_put (data (generated_dataset f)) None\<rparr>\<rparr>
      in if thread = Blocks \<or> thread = OutOfDraws then (Blocks, f', h)
         else if factory_count f = 0 then (Raises ZeroDivisionError, f', h)
         else (Returns (), f', h))"

text \<open>
  \<open>run\<close>, the sequential strategy. The save thread runs \<^verbatim>\<open>self.generated_dataset.save\<close>
  with no argument; its call is placed at its start. \<open>new_projector\<close> is the renderer
  the constructor \<^verbatim>\<open>SceneRenderer(...)\<close> returns.
\<close>

definition run ::
  "('img, 'f) externals \<Rightarrow> (pyval \<Rightarrow> string) \<Rightarrow> error + pyval \<Rightarrow> ('img, 'f) DatasetFactory \<Rightarrow>
     heap \<Rightarrow> unit outcome \<times> ('img, 'f) DatasetFactory \<times> heap" where
  "run ext str_of new_projector f h =
     (case new_projector of
        Inl e \<Rightarrow> (Raises e, f, h)
      | Inr projector \<Rightarrow>
          (case save_call str_of [] (generated_dataset f) [] of
             (thread, gd, written) \<Rightarrow>
               (case generate_loop ext projector (f\<lparr>generated_dataset := gd\<rparr>) h
                       [0..<nat (factory_count f)] of
                  (Returns u, f', h') \<Rightarrow> finish_run thread f' h'
                | other \<Rightarrow> other)))"

text \<open>
  \<open>run_multi_threaded\<close>, the parallel strategy. The work items are the pairs
  \<^verbatim>\<open>zip(range(count), count * list(range(nb_threads)))\<close>, and \<^verbatim>\<open>imap_unordered\<close> calls
  \<^verbatim>\<open>self.generate\<close> with each pair as its only argument. The pool's calls are taken one
  after the other in the order \<open>order\<close> gives the items, and the first exception is
  raised to the loop over the results. A pool of fewer than one worker is a
  \<open>ValueError\<close>; \<open>new_projector\<close> is what the constructor of the renderers returns.
\<close>

fun pool_loop ::
  "('img, 'f) externals \<Rightarrow> ('img, 'f) DatasetFactory \<Rightarrow> heap \<Rightarrow> pyval list \<Rightarrow>
     unit outcome \<times> ('img, 'f) DatasetFactory \<times> heap" where
  "pool_loop ext f h [] = (Returns (), f, h)"
| "pool_loop ext f h (item # rest) =
     (case generate_call ext f h [item] of
        (Returns u, f', h') \<Rightarrow> pool_loop ext f' h' rest
      | other \<Rightarrow> other)"

definition run_multi_threaded ::
  "('img, 'f) externals \<Rightarrow> (pyval \<Rightarrow> string) \<Rightarrow> error + pyval \<Rightarrow>
     (pyval list \<Rightarrow> pyval list) \<Rightarrow> ('img, 'f) DatasetFactory \<Rightarrow> heap \<Rightarrow>
     unit outcome \<times> ('img, 'f) DatasetFactory \<times> heap" where
  "run_multi_threaded ext str_of new_projector order f h =
     (if nb_threads f < 1 then (Raises ValueError, f, h)
      else
        (case save_call str_of [] (generated_dataset f) [] of
           (thread, gd, written) \<Rightarrow>
             (case new_projector of
                Inl e \<Rightarrow> (Raises e, f\<lparr>generated_dataset := gd\<rparr>, h)
              | Inr projector \<Rightarrow>
                  let work = map (\<lambda>i. PyTuple [PyInt (int i), PyInt (int i mod nb_threads f)])
                               [0..<nat (factory_count f)]
                  in (case pool_loop ext (f\<lparr>generated_dataset := gd\<rparr>) h (order work) of
                        (Returns u, f', h') \<Rightarrow> finish_run thread f' h'
                      | other \<Rightarrow> other))))"

text \<open>The ids of the samples on a sample queue.\<close>

definition emitted_ids :: "('img, 'f) DatasetFactory \<Rightarrow> pyval list" where
  "emitted_ids f =
     concat (map (\<lambda>x. case x of None \<Rightarrow> [] | Some s \<Rightarrow> [sample_id s])
               (items (data (generated_dataset f))))"

text \<open>
  Collaborators and a factory for the concrete runs: the renderer returns the bounding
  box of \<open>example_heap\<close>, images are numbers, the output is 320 by 240, and the factory
  has one background staged and is to generate one sample.
\<close>

definition example_ext :: "(nat, int) externals" where
  "example_ext =
     \<lparr>ext_render = (\<lambda>k pose h. Inr (7, [0], example_heap)),
      ext_augment = (\<lambda>img f. Inr img),
      ext_combine = (\<lambda>img f. Inr (img, (320, 240))),
      ext_draw_boxes = (\<lambda>h bs img. Inr img),
      ext_draw_text = (\<lambda>img. Inr img)\<rparr>"

definition example_factory :: "(nat, int) DatasetFactory" where
  "example_factory =
     \<lparr>nb_threads = 1, factory_count = 1, verbose = False, extra_verbose = False,
      max_blur = 200, blur_disabled = False,
      background_dataset =
        \<lparr>path = ''bg'', width = Some 640, height = Some 480,
         data = \<lparr>items = [BackgroundImage ''bg/a.png'' example_pose], unfinished_tasks = 0\<rparr>\<rparr>,
      generated_dataset = example_dataset ''out'',
      factory_base_width = Some 640, factory_base_height = Some 480,
      target_width = 320, target_height = 240, sample_no = 0, visible_gates = 0\<rparr>"

definition example_sample :: "nat AnnotatedImage" where
  "example_sample = AnnotatedImage 7 (PyInt 0) (SyntheticAnnotations PyNone PyNone PyNone)"

definition example_str :: "pyval \<Rightarrow> string" where
  "example_str v = (if v = PyInt 0 then ''0'' else ''?'')"

definition example_samples :: "nat AnnotatedImage option Dataset" where
  "example_samples =
     \<lparr>path = ''out'', width = None, height = None,
      data = \<lparr>items = [Some example_sample, None], unfinished_tasks = 2\<rparr>\<rparr>"

section \<open>Properties of the coordinate scaling\<close>

lemma py_int_quot_nonneg: "0 \<le> a \<Longrightarrow> 0 < b \<Longrightarrow> py_int_quot a b = a div b"
  by (cases "a = 0") (simp_all add: py_int_quot_def)

lemma py_int_quot_neg: "a < 0 \<Longrightarrow> 0 < b \<Longrightarrow> py_int_quot a b = - ((- a) div b)"
  by (simp add: py_int_quot_def)

lemma py_int_quot_mono:
  assumes "0 < b" "a \<le> a'"
  shows "py_int_quot a b \<le> py_int_quot a' b"
proof -
  consider "0 \<le> a" | "a < 0" "a' < 0" | "a < 0" "0 \<le> a'" by linarith
  then show ?thesis
  proof cases
    case 1
    with assms show ?thesis
      by (simp add: py_int_quot_nonneg zdiv_mono1)
  next
    case 2
    with assms have "(- a') div b \<le> (- a) div b"
      by (simp add: zdiv_mono1)
    with 2 assms show ?thesis
      by (simp add: py_int_quot_neg)
  next
    case 3
    have "0 \<le> (- a) div b" using 3 assms by (simp add: pos_imp_zdiv_nonneg_iff)
    moreover have "0 \<le> a' div b" using 3 assms by (simp add: pos_imp_zdiv_nonneg_iff)
    ultimately show ?thesis
      using 3 assms by (simp add: py_int_quot_neg py_int_quot_nonneg)
  qed
qed

lemma scale_coordinates_pair:
  assumes "h c = Some (ListO (x # y # rest))" "Wb \<noteq> 0" "Hb \<noteq> 0"
  shows "scale_coordinates (Some Wb) (Some Hb) h c (Wo, Ho) =
           Inr (h(c \<mapsto> ListO (py_int_quot (x * Wo) Wb # py_int_quot (y * Ho) Hb # rest)), c)"
  using assms by (simp add: scale_coordinates_def scale_axis_def)

text \<open>
  C3, as amended. On a coordinate pair \<open>(x, y)\<close> and non-zero base dimensions,
  \<open>scale_coordinates\<close> stores and returns
  \<open>(trunc (x * Wo / Wb), trunc (y * Ho / Hb))\<close>, where \<open>trunc\<close> rounds toward zero. For
  non-negative products and a positive base dimension this is the floor of the
  quotient, and each axis is monotonic in its coordinate when the dimensions are
  positive.
\<close>

theorem scale_coordinates_truncates:
  "(h c = Some (ListO [x, y]) \<and> Wb \<noteq> 0 \<and> Hb \<noteq> 0 \<longrightarrow>
      scale_coordinates (Some Wb) (Some Hb) h c (Wo, Ho) =
        Inr (h(c \<mapsto> ListO [py_int_quot (x * Wo) Wb, py_int_quot (y * Ho) Hb]), c))
   \<and> (0 \<le> x * Wo \<and> 0 < Wb \<longrightarrow>
        py_int_quot (x * Wo) Wb = \<lfloor>real_of_int (x * Wo) / real_of_int Wb\<rfloor>)
   \<and> (0 \<le> y * Ho \<and> 0 < Hb \<longrightarrow>
        py_int_quot (y * Ho) Hb = \<lfloor>real_of_int (y * Ho) / real_of_int Hb\<rfloor>)
   \<and> (0 \<le> Wo \<and> 0 < Wb \<and> x \<le> x' \<longrightarrow>
        py_int_quot (x * Wo) Wb \<le> py_int_quot (x' * Wo) Wb)
   \<and> (0 \<le> Ho \<and> 0 < Hb \<and> y \<le> y' \<longrightarrow>
        py_int_quot (y * Ho) Hb \<le> py_int_quot (y' * Ho) Hb)"
proof -
  have floor_eq: "py_int_quot a b = \<lfloor>real_of_int a / real_of_int b\<rfloor>"
    if "0 \<le> a" "0 < b" for a b
    using that by (simp add: py_int_quot_nonneg floor_divide_of_int_eq)
  have mono: "py_int_quot (u * t) b \<le> py_int_quot (u' * t) b"
    if "0 \<le> t" "0 < b" "u \<le> u'" for u u' t b
    using that by (intro py_int_quot_mono) (simp_all add: mult_right_mono)
  show ?thesis
    using floor_eq mono scale_coordinates_pair [of h c x y "[]" Wb Hb Wo Ho]
    by simp
qed

theorem scale_coordinates_truncates_witness:
  "scale_coordinates (Some 4) (Some 4) (Map.empty(0 \<mapsto> ListO [3, 5])) 0 (2, 2) =
     Inr (Map.empty(0 \<mapsto> ListO [1, 2]), 0)
   \<and> py_int_quot (3 * 2) 4 = \<lfloor>real_of_int (3 * 2) / real_of_int 4\<rfloor>
   \<and> py_int_quot (5 * 2) 4 = \<lfloor>real_of_int (5 * 2) / real_of_int 4\<rfloor>
   \<and> py_int_quot (3 * 2) 4 \<le> py_int_quot (4 * 2) 4
   \<and> py_int_quot (5 * 2) 4 \<le> py_int_quot (6 * 2) 4"
  using scale_coordinates_truncates
    [of "Map.empty(0 \<mapsto> ListO [3, 5])" 0 3 5 4 4 2 2 4 6]
  by (simp add: py_int_quot_def)

text \<open>
  The claim as written (the floor of the quotient for every pair) fails on a negative
  coordinate: \<open>-1\<close> scaled from width 2 to width 1 is \<open>int(-0.5) = 0\<close>, while the floor
  of \<open>-0.5\<close> is \<open>-1\<close>.
\<close>

theorem scale_coordinates_floor_counterexample:
  "scale_coordinates (Some 2) (Some 2) (Map.empty(0 \<mapsto> ListO [- 1, - 1])) 0 (1, 1) =
     Inr (Map.empty(0 \<mapsto> ListO [0, 0]), 0)
   \<and> \<lfloor>real_of_int (- 1 * 1) / real_of_int 2\<rfloor> = (- 1 :: int)"
  by (simp add: scale_coordinates_def scale_axis_def py_int_quot_def)

section \<open>Properties of the blur amount and of the motion blur\<close>

text \<open>
  C2, as amended. With a non-zero threshold, \<open>get_blur_amount\<close> divides the variance
  by the threshold; a ratio above 1 is replaced by 0.9, any other ratio is kept as it
  is (ratios in \<open>(0.9, 1]\<close> included), and the result is 1 minus that value. For a
  non-negative variance and a positive threshold the result lies in \<open>[0, 1]\<close>.
\<close>

theorem get_blur_amount_range:
  "(t \<noteq> 0 \<and> v / real_of_int t > 1 \<longrightarrow> get_blur_amount t v = Some (1 - 0.9))
   \<and> (t \<noteq> 0 \<and> v / real_of_int t \<le> 1 \<longrightarrow>
        get_blur_amount t v = Some (1 - v / real_of_int t))
   \<and> (0 < t \<and> 0 \<le> v \<longrightarrow> (\<exists>r. get_blur_amount t v = Some r \<and> 0 \<le> r \<and> r \<le> 1))"
  by (auto simp: get_blur_amount_def Let_def)

theorem get_blur_amount_range_witness:
  "get_blur_amount 200 300 = Some (1 - 0.9)
   \<and> get_blur_amount 200 100 = Some (1 - 100 / real_of_int 200)
   \<and> get_blur_amount 200 190 = Some (1 / 20) \<and> (0::real) \<le> 1 / 20 \<and> (1 / 20 :: real) \<le> 1"
  using get_blur_amount_range [of 200 300] get_blur_amount_range [of 200 100]
    get_blur_amount_range [of 200 190]
  by (simp add: get_blur_amount_def)

text \<open>
  The claim as written (the ratio clamped to at most 0.9, a strength of at least 0.1)
  fails where the ratio lies in \<open>(0.9, 1]\<close>: a variance of 200 with the default
  threshold 200 has ratio 1, which is not above 1 and is kept, so the strength is 0.
\<close>

theorem get_blur_amount_clamp_counterexample:
  "get_blur_amount 200 200 = Some 0 \<and> \<not> (0.1 \<le> (0::real))
   \<and> 200 / real_of_int 200 > (0.9::real)"
  by (simp add: get_blur_amount_def)

lemma identity_entry:
  "i < n \<Longrightarrow> j < n \<Longrightarrow>
     divide_kernel (identity n) n ! i ! j = (if i = j then 1 / real n else 0)"
  by (simp add: divide_kernel_def identity_def)

text \<open>
  C9. With blur disabled \<open>apply_motion_blur\<close> returns the image array as it is.
  Otherwise a strength of at most 0.3 convolves with the kernel of size 3, a strength
  in \<open>(0.3, 0.7]\<close> with the kernel of size 5, and a strength above 0.7 with the kernel
  of size 9, the bounds 0.3 and 0.7 inclusive. The kernel of size \<open>n\<close> is an \<open>n\<close> by \<open>n\<close>
  matrix with \<open>1 / n\<close> on the diagonal and 0 elsewhere.
\<close>

theorem apply_motion_blur_kernel:
  "apply_motion_blur f True img a = img
   \<and> (a \<le> 0.3 \<longrightarrow>
        apply_motion_blur f False img a = f img (divide_kernel (identity 3) 3))
   \<and> (0.3 < a \<and> a \<le> 0.7 \<longrightarrow>
        apply_motion_blur f False img a = f img (divide_kernel (identity 5) 5))
   \<and> (0.7 < a \<longrightarrow>
        apply_motion_blur f False img a = f img (divide_kernel (identity 9) 9))
   \<and> length (divide_kernel (identity n) n) = n
   \<and> (i < n \<longrightarrow> length (divide_kernel (identity n) n ! i) = n)
   \<and> (i < n \<and> j < n \<longrightarrow>
        divide_kernel (identity n) n ! i ! j = (if i = j then 1 / real n else 0))"
  by (simp add: apply_motion_blur_def identity_entry) (simp add: divide_kernel_def identity_def)

theorem apply_motion_blur_kernel_witness:
  "apply_motion_blur (\<lambda>(img::nat) k. length k) True 0 0.5 = 0
   \<and> apply_motion_blur (\<lambda>(img::nat) k. length k) False 0 0.3 = 3
   \<and> apply_motion_blur (\<lambda>(img::nat) k. length k) False 0 0.7 = 5
   \<and> apply_motion_blur (\<lambda>(img::nat) k. length k) False 0 0.71 = 9
   \<and> length (divide_kernel (identity 3) 3) = 3
   \<and> length (divide_kernel (identity 3) 3 ! 1) = 3
   \<and> divide_kernel (identity 3) 3 ! 1 ! 1 = 1 / 3
   \<and> divide_kernel (identity 3) 3 ! 1 ! 2 = 0"
  using apply_motion_blur_kernel [of "\<lambda>(img::nat) k. length k" 0 "0.3" 3 1 1]
    apply_motion_blur_kernel [of "\<lambda>(img::nat) k. length k" 0 "0.7" 3 1 2]
    apply_motion_blur_kernel [of "\<lambda>(img::nat) k. length k" 0 "0.71" 3 1 1]
    apply_motion_blur_kernel [of "\<lambda>(img::nat) k. length k" 0 "0.5" 3 1 1]
  by (simp add: divide_kernel_def identity_def)

section \<open>Properties of the annotations parser\<close>

lemma split_on_nonempty: "split_on sep s \<noteq> []"
  by (induction s) (auto split: list.splits)

lemma floats_cases:
  "floats float_of xs =
     (if \<forall>x\<in>set xs. float_of x \<noteq> None then Inr (map (the \<circ> float_of) xs)
      else Inl ValueError)"
proof (induction xs)
  case Nil
  show ?case by simp
next
  case (Cons x xs)
  show ?case
  proof (cases "float_of x")
    case None
    then show ?thesis by auto
  next
    case (Some v)
    with Cons.IH show ?thesis by simp
  qed
qed

lemma parse_lines_Cons:
  "parse_lines float_of (l # ls) ann =
     (if well_formed_line float_of l
      then parse_lines float_of ls
             (ann(fst (line_entry float_of l) \<mapsto> snd (line_entry float_of l)))
      else Inl ValueError)"
proof -
  obtain name nums where sp: "split_on CHR '','' l = name # nums"
    using split_on_nonempty [of "CHR '',''" l] by (cases "split_on CHR '','' l") auto
  have nf: "numeric_fields l = nums"
    by (simp add: numeric_fields_def sp)
  let ?okT = "\<forall>x\<in>set (take 3 nums). float_of x \<noteq> None"
  let ?okD = "\<forall>x\<in>set (drop 3 nums). float_of x \<noteq> None"
  have iff: "well_formed_line float_of l \<longleftrightarrow>
      ?okT \<and> length (take 3 nums) = 3 \<and> ?okD \<and> length (drop 3 nums) = 4"
  proof -
    have "set nums = set (take 3 nums) \<union> set (drop 3 nums)"
      by (metis append_take_drop_id set_append)
    then have "(\<forall>x\<in>set nums. float_of x \<noteq> None) \<longleftrightarrow> ?okT \<and> ?okD"
      by auto
    moreover have "length nums = 7 \<longleftrightarrow> length (take 3 nums) = 3 \<and> length (drop 3 nums) = 4"
      by auto
    ultimately show ?thesis
      unfolding well_formed_line_def nf by blast
  qed
  show ?thesis
  proof (cases "well_formed_line float_of l")
    case True
    with iff have "?okT" "length (take 3 nums) = 3" "?okD" "length (drop 3 nums) = 4"
      by simp_all
    with True show ?thesis
      by (simp add: sp nf floats_cases Vector3_new_def Quaternion_new_def line_entry_def)
  next
    case False
    with iff have "\<not> (?okT \<and> length (take 3 nums) = 3 \<and> ?okD \<and> length (drop 3 nums) = 4)"
      by simp
    with False show ?thesis
      by (auto simp: sp floats_cases Vector3_new_def Quaternion_new_def)
  qed
qed

lemma parse_lines_cases:
  "parse_lines float_of ls ann =
     (if \<forall>l\<in>set ls. well_formed_line float_of l
      then Inr (ann ++ map_of (rev (map (line_entry float_of) ls)))
      else Inl ValueError)"
proof (induction ls arbitrary: ann)
  case Nil
  show ?case by simp
next
  case (Cons l ls)
  have upd: "m(fst e \<mapsto> snd e) ++ map_of (rev es) = m ++ map_of (rev (e # es))"
    for m :: "string \<Rightarrow> 'a BackgroundAnnotations option" and e es
    by (cases e) (auto simp: fun_eq_iff map_add_def split: option.splits)
  show ?case
  proof (cases "well_formed_line float_of l")
    case False
    then show ?thesis
      by (simp only: parse_lines_Cons if_False list.set ball_simps simp_thms)
  next
    case True
    have "parse_lines float_of (l # ls) ann =
        parse_lines float_of ls
          (ann(fst (line_entry float_of l) \<mapsto> snd (line_entry float_of l)))"
      using True by (simp only: parse_lines_Cons if_True)
    also have "\<dots> =
        (if \<forall>l\<in>set ls. well_formed_line float_of l
         then Inr (ann(fst (line_entry float_of l) \<mapsto> snd (line_entry float_of l))
                    ++ map_of (rev (map (line_entry float_of) ls)))
         else Inl ValueError)"
      by (rule Cons.IH)
    also have "ann(fst (line_entry float_of l) \<mapsto> snd (line_entry float_of l))
                    ++ map_of (rev (map (line_entry float_of) ls))
               = ann ++ map_of (rev (map (line_entry float_of) (l # ls)))"
      using upd [of ann "line_entry float_of l" "map (line_entry float_of) ls"]
      by (simp only: list.map)
    finally show ?thesis
      using True by (simp only: list.set ball_simps simp_thms)
  qed
qed

text \<open>
  A line with another number of fields than eight is rejected as well, by the pyrr
  constructors: the result is their \<open>ValueError\<close>. An empty last line is such a line.
\<close>

lemma parse_annotations_field_count:
  assumes "isfile fs ap"
    and "\<exists>line\<in>set (drop 1 (readlines fs ap)). length (numeric_fields line) \<noteq> 7"
  shows "parse_annotations fs float_of ap = Inl ValueError"
  using assms by (auto simp: parse_annotations_def parse_lines_cases well_formed_line_def)

lemma example_parse_blank:
  "parse_annotations example_fs toy_float ''blank/annotations.csv'' = Inl ValueError"
  by (rule parse_annotations_field_count)
    (simp_all add: example_fs_def example_header_def numeric_fields_def)

text \<open>
  C8. \<open>parse_annotations\<close> raises the exception "Annotations file not found" when no
  regular file stands at the path. Otherwise the first line is dropped, and when every
  later line has the eight fields \<^verbatim>\<open>filename, tx, ty, tz, qx, qy, qz, qw\<close> with numeric
  fields that \<^verbatim>\<open>float()\<close> accepts, the result maps each file name to the pose of the last
  line that names it, whatever the numbers are. When some numeric field of some later
  line is rejected, the result is a \<open>ValueError\<close>.
\<close>

theorem parse_annotations_spec:
  "(\<not> isfile fs ap \<longrightarrow>
      parse_annotations fs float_of ap = Inl (Exception ''Annotations file not found''))
   \<and> (isfile fs ap
        \<and> (\<forall>line\<in>set (drop 1 (readlines fs ap)).
             length (numeric_fields line) = 7
             \<and> (\<forall>x\<in>set (numeric_fields line). float_of x \<noteq> None)) \<longrightarrow>
        parse_annotations fs float_of ap =
          Inr (map_of (rev (map (line_entry float_of) (drop 1 (readlines fs ap))))))
   \<and> (isfile fs ap
        \<and> (\<exists>line\<in>set (drop 1 (readlines fs ap)).
             \<exists>x\<in>set (numeric_fields line). float_of x = None) \<longrightarrow>
        parse_annotations fs float_of ap = Inl ValueError)"
  by (auto simp: parse_annotations_def parse_lines_cases well_formed_line_def)

theorem parse_annotations_spec_witness:
  "parse_annotations example_fs toy_float ''bg/missing.csv'' =
     Inl (Exception ''Annotations file not found'')
   \<and> parse_annotations example_fs toy_float ''bg/annotations.csv'' =
       Inr (map_of [(''a.png'', \<lparr>translation = Vector3 [0, 0, 0],
                                 orientation = Quaternion [0, 0, 0, 1]\<rparr>)])
   \<and> parse_annotations example_fs toy_float ''bad/annotations.csv'' = Inl ValueError"
  using parse_annotations_spec [of example_fs "''bg/missing.csv''" toy_float]
    parse_annotations_spec [of example_fs "''bg/annotations.csv''" toy_float]
    parse_annotations_spec [of example_fs "''bad/annotations.csv''" toy_float]
  by (simp add: example_fs_def example_header_def toy_float_def strip_def is_space_def
      numeric_fields_def line_entry_def)

section \<open>Properties of loading\<close>

lemma task_done_put:
  "Queue_task_done (Queue_put q x) = Inr (q\<lparr>items := items q @ [x]\<rparr>)"
  by (simp add: Queue_task_done_def Queue_put_def)

lemma stage_result:
  "stage fs dir ap anns files ds nf = Inr (ds', nf') \<Longrightarrow>
     items (data ds') =
       items (data ds) @
         map (\<lambda>f. BackgroundImage (path_join dir f) (the (anns f))) (matched fs dir ap anns files)
     \<and> nf' = nf + length (unmatched fs dir ap anns files)
     \<and> unfinished_tasks (data ds') = unfinished_tasks (data ds)
     \<and> path ds' = path ds"
proof (induction files arbitrary: ds nf)
  case Nil
  then show ?case by (simp add: matched_def unmatched_def)
next
  case (Cons f files)
  show ?case
  proof (cases "eligible fs dir ap f")
    case False
    with Cons.prems have "stage fs dir ap anns files ds nf = Inr (ds', nf')"
      by (auto simp: eligible_def Let_def split: if_splits)
    from Cons.IH [OF this] False show ?thesis
      by (simp add: matched_def unmatched_def)
  next
    case True
    show ?thesis
    proof (cases "anns f")
      case None
      with True Cons.prems have "stage fs dir ap anns files ds (nf + 1) = Inr (ds', nf')"
        by (auto simp: eligible_def Let_def split: if_splits)
      from Cons.IH [OF this] True None show ?thesis
        by (simp add: matched_def unmatched_def)
    next
      case (Some a)
      let ?q = "(data ds)\<lparr>items := items (data ds) @ [BackgroundImage (path_join dir f) a]\<rparr>"
      from True Some Cons.prems obtain ds1 where
        rec: "stage fs dir ap anns files ds1 nf = Inr (ds', nf')"
        and ds1: "data ds1 = ?q" "path ds1 = path ds"
        by (auto simp: eligible_def task_done_put Let_def split: if_splits option.splits)
      from Cons.IH [OF rec] ds1 True Some show ?thesis
        by (simp add: matched_def unmatched_def)
    qed
  qed
qed

lemma pad_files_unpadded:
  "count < int (length files) \<Longrightarrow> pad_files fs dir ap count draws files = Returns files"
  by (cases draws) simp_all

lemma load_Returns:
  assumes "load fs float_of shuffle draws ds count (Some ap) = Returns (ds', nf, r)"
  obtains files anns where
    "pad_files fs (path ds) (Some ap) count draws (shuffle (listdir fs (path ds))) = Returns files"
    "parse_annotations fs float_of ap = Inr anns"
    "stage fs (path ds) (Some ap) anns files ds 0 = Inr (ds', nf)"
    "r = PyNone"
  using assms
  by (auto simp: load_def Let_def split: outcome.splits sum.splits if_splits)

lemmas example_defs =
  example_fs_def example_header_def example_dataset_def example_pose_def toy_float_def
  strip_def is_space_def path_join_def parse_annotations_def Vector3_new_def
  Quaternion_new_def Queue_new_def Queue_put_def
  Queue_task_done_def Queue_join_returns_def py_not_def

lemma example_parse_bg2:
  "parse_annotations example_fs toy_float ''bg2/annotations.csv'' =
     Inr (Map.empty(''a.png'' \<mapsto> example_pose))"
  by (simp add: example_defs)

lemma example_parse_bg3:
  "parse_annotations example_fs toy_float ''bg3/annotations.csv'' = Inr Map.empty"
  by (simp add: example_defs)

lemma example_load_bg2:
  "count = 1 \<or> count = 2 \<Longrightarrow>
   load example_fs toy_float (\<lambda>xs. xs) [] (example_dataset ''bg2'') count
       (Some ''bg2/annotations.csv'') =
     Returns (\<lparr>path = ''bg2'', width = Some 640, height = Some 480,
               data = \<lparr>items = [BackgroundImage ''bg2/a.png'' example_pose],
                       unfinished_tasks = 0\<rparr>\<rparr>, 1, PyNone)"
  by (auto simp: load_def example_parse_bg2) (simp_all add: example_defs)

lemma example_load_bg3:
  "load example_fs toy_float (\<lambda>xs. xs) [0] (example_dataset ''bg3'') 2
       (Some ''bg3/annotations.csv'') =
     Returns (example_dataset ''bg3'', 2, PyNone)"
  by (simp add: load_def example_parse_bg3) (simp add: example_defs Let_def)

text \<open>
  C7, as amended. When \<open>load\<close> returns, the entries it has put on the queue are, in
  order, the eligible entries of the padded file list that have an annotation, each
  with the pose the annotation mapping gives its name: no name absent from the mapping
  is staged. The number reported as not found is the number of entries of the padded
  list, every repetition drawn by the padding counted, that are eligible and absent
  from the mapping. When \<open>count\<close> is below the length of the listing nothing is padded
  and the list is the shuffled listing itself.
\<close>

theorem load_not_found_count:
  assumes "load fs float_of shuffle draws ds count (Some ap) = Returns (ds', nf, r)"
  shows "\<exists>files anns.
           pad_files fs (path ds) (Some ap) count draws (shuffle (listdir fs (path ds))) =
             Returns files
         \<and> parse_annotations fs float_of ap = Inr anns
         \<and> items (data ds') =
               items (data ds) @
                 map (\<lambda>f. BackgroundImage (path_join (path ds) f) (the (anns f)))
                   (matched fs (path ds) (Some ap) anns files)
         \<and> (\<forall>b\<in>set (drop (length (items (data ds))) (items (data ds'))).
               \<exists>f\<in>set files. anns f = Some (annotations b)
                              \<and> image_path b = path_join (path ds) f)
         \<and> nf = length (unmatched fs (path ds) (Some ap) anns files)
         \<and> (count < int (length (shuffle (listdir fs (path ds)))) \<longrightarrow>
               files = shuffle (listdir fs (path ds)))"
proof -
  from assms obtain files anns where
    pad: "pad_files fs (path ds) (Some ap) count draws (shuffle (listdir fs (path ds))) =
            Returns files"
    and parse: "parse_annotations fs float_of ap = Inr anns"
    and st: "stage fs (path ds) (Some ap) anns files ds 0 = Inr (ds', nf)"
    by (rule load_Returns)
  note res = stage_result [OF st]
  have staged: "\<exists>f\<in>set files. anns f = Some (annotations b)
                    \<and> image_path b = path_join (path ds) f"
    if "b \<in> set (drop (length (items (data ds))) (items (data ds')))" for b
    using that res by (auto simp: matched_def)
  have unpadded: "files = shuffle (listdir fs (path ds))"
    if "count < int (length (shuffle (listdir fs (path ds))))"
    using pad pad_files_unpadded [OF that, of fs "path ds" "Some ap" draws] by simp
  show ?thesis
    by (intro exI [of _ files] exI [of _ anns]) (use pad parse res staged unpadded in auto)
qed

theorem load_not_found_count_witness:
  "load example_fs toy_float (\<lambda>xs. xs) [] (example_dataset ''bg2'') 1
       (Some ''bg2/annotations.csv'') =
     Returns (\<lparr>path = ''bg2'', width = Some 640, height = Some 480,
               data = \<lparr>items = [BackgroundImage ''bg2/a.png'' example_pose],
                       unfinished_tasks = 0\<rparr>\<rparr>, 1, PyNone)
   \<and> (\<exists>files anns.
         pad_files example_fs ''bg2'' (Some ''bg2/annotations.csv'') 1 []
             (listdir example_fs ''bg2'') = Returns files
       \<and> parse_annotations example_fs toy_float ''bg2/annotations.csv'' = Inr anns
       \<and> [BackgroundImage ''bg2/a.png'' example_pose] =
             map (\<lambda>f. BackgroundImage (path_join ''bg2'' f) (the (anns f)))
               (matched example_fs ''bg2'' (Some ''bg2/annotations.csv'') anns files)
       \<and> (1::nat) = length (unmatched example_fs ''bg2'' (Some ''bg2/annotations.csv'') anns files)
       \<and> files = listdir example_fs ''bg2'')"
proof -
  have run: "load example_fs toy_float (\<lambda>xs. xs) [] (example_dataset ''bg2'') 1
       (Some ''bg2/annotations.csv'') =
     Returns (\<lparr>path = ''bg2'', width = Some 640, height = Some 480,
               data = \<lparr>items = [BackgroundImage ''bg2/a.png'' example_pose],
                       unfinished_tasks = 0\<rparr>\<rparr>, 1, PyNone)"
    by (rule example_load_bg2) simp
  have len: "(1::int) < int (length (listdir example_fs ''bg2''))"
    by (simp add: example_fs_def)
  show ?thesis
    using run len load_not_found_count [OF run]
    by (auto simp: example_dataset_def Queue_new_def)
qed

text \<open>
  The claim as written (the reported count is the number of eligible files absent from
  the mapping) fails when the padding draws an unannotated file: in \<^verbatim>\<open>bg3\<close>, with
  \<open>count = 2\<close>, the one unannotated image is drawn once more and is reported twice.
\<close>

theorem load_not_found_counterexample:
  "load example_fs toy_float (\<lambda>xs. xs) [0] (example_dataset ''bg3'') 2
       (Some ''bg3/annotations.csv'') =
     Returns (example_dataset ''bg3'', 2, PyNone)
   \<and> parse_annotations example_fs toy_float ''bg3/annotations.csv'' = Inr Map.empty
   \<and> length (unmatched example_fs ''bg3'' (Some ''bg3/annotations.csv'') Map.empty
               (listdir example_fs ''bg3'')) = 1"
  using example_load_bg3 example_parse_bg3
  by (simp add: unmatched_def eligible_def) (simp add: example_defs)

text \<open>
  C1, at a failing input. The directory \<^verbatim>\<open>bg2\<close> lists three entries (an annotated image,
  an unannotated image and the annotations file); with \<open>count = 2\<close> the listing is
  already longer than \<open>count\<close>, nothing is padded, and \<open>load\<close> returns with one staged
  entry, fewer than \<open>count\<close>.
\<close>

theorem load_stages_fewer_than_count:
  "load example_fs toy_float (\<lambda>xs. xs) [] (example_dataset ''bg2'') 2
       (Some ''bg2/annotations.csv'') =
     Returns (\<lparr>path = ''bg2'', width = Some 640, height = Some 480,
               data = \<lparr>items = [BackgroundImage ''bg2/a.png'' example_pose],
                       unfinished_tasks = 0\<rparr>\<rparr>, 1, PyNone)
   \<and> length [BackgroundImage ''bg2/a.png'' example_pose] < 2"
  using example_load_bg2 [of 2] by simp

section \<open>Properties of the constructor\<close>

lemma example_parse_bg:
  "parse_annotations example_fs toy_float ''bg/annotations.csv'' =
     Inr (Map.empty(''a.png'' \<mapsto> example_pose))"
  by (simp add: example_defs)

lemma example_load_bg:
  "load example_fs toy_float (\<lambda>xs. xs) [] (example_dataset ''bg'') 1
       (Some ''bg/annotations.csv'') =
     Returns (\<lparr>path = ''bg'', width = Some 640, height = Some 480,
               data = \<lparr>items = [BackgroundImage ''bg/a.png'' example_pose],
                       unfinished_tasks = 0\<rparr>\<rparr>, 0, PyNone)"
  by (simp add: load_def example_parse_bg) (simp add: example_defs Let_def)

lemma load_returns_None:
  "load fs float_of shuffle draws ds count ap = Returns (ds', nf, r) \<Longrightarrow> r = PyNone"
  by (auto simp: load_def Let_def split: outcome.splits sum.splits if_splits option.splits)

text \<open>
  C6, at a failing input. The directory \<^verbatim>\<open>bg\<close> holds one image with its annotation row, and
  one sample is asked for: \<open>load\<close> returns, with the image staged and nothing missing,
  and the value it returns is \<^verbatim>\<open>None\<close>. The test \<^verbatim>\<open>if not load(...)\<close> then takes the exit:
  the constructor leaves with status 1 although the dataset has loaded. As written the
  constructor does not reach \<open>load\<close>: the call \<^verbatim>\<open>Dataset(args.dataset, args.seed)\<close> is a
  \<open>TypeError\<close>, which ends the process with status 1 as well.
\<close>

theorem factory_exits_after_successful_load:
  "Dataset_init example_fs (arg_dataset example_args) = Inr (example_dataset ''bg'')
   \<and> load example_fs toy_float (\<lambda>xs. xs) [] (example_dataset ''bg'') (arg_nb_images example_args)
         (Some (path_join (arg_dataset example_args) ''annotations.csv'')) =
       Returns (\<lparr>path = ''bg'', width = Some 640, height = Some 480,
                 data = \<lparr>items = [BackgroundImage ''bg/a.png'' example_pose],
                         unfinished_tasks = 0\<rparr>\<rparr>, 0, PyNone)
   \<and> factory_init_from example_fs toy_float int_of (\<lambda>xs. xs) [] example_args
         (example_dataset ''bg'') = Exits 1
   \<and> DatasetFactory_init example_fs toy_float int_of (\<lambda>xs. xs) [] example_args = Raises TypeError
   \<and> exit_status (Raises TypeError) = Some 1"
proof -
  have j: "path_join ''bg'' ''annotations.csv'' = ''bg/annotations.csv''"
    by (simp add: path_join_def)
  have a: "arg_dataset example_args = ''bg''" "arg_nb_images example_args = 1"
    "arg_seed example_args = PyNone"
    by (simp_all add: example_args_def)
  have i: "Dataset_init example_fs ''bg'' = Inr (example_dataset ''bg'')"
    by (simp add: Dataset_init_def example_fs_def example_dataset_def)
  show ?thesis
    by (simp add: a j i example_load_bg factory_init_from_def DatasetFactory_init_def
        Dataset_call_def)
qed

section \<open>Properties of the scaling loop\<close>

lemma scale_coordinates_Inr:
  assumes "scale_coordinates (Some Wb) (Some Hb) h c tgt = Inr (h', r)"
  shows "r = c \<and> (\<exists>xs. h c = Some (ListO xs) \<and> h' = h(c \<mapsto> ListO (scaled_list Wb Hb tgt xs)))"
  using assms
  by (auto simp: scale_coordinates_def scale_axis_def scaled_list_def
      split: option.splits obj.splits if_splits)

lemma scale_val_Inr:
  assumes "scale_val (Some Wb) (Some Hb) h v tgt = Inr (h', r)"
  shows "v = Ref r \<and> h' = scale_at Wb Hb tgt r h"
proof -
  from assms obtain a where v: "v = Ref a"
    and sc: "scale_coordinates (Some Wb) (Some Hb) h a tgt = Inr (h', r)"
    by (auto simp: scale_val_def split: val.splits)
  from scale_coordinates_Inr [OF sc] v show ?thesis
    by (auto simp: scale_at_def)
qed

lemma same_dicts_refl: "same_dicts h h"
  by (simp add: same_dicts_def)

lemma same_dicts_trans: "same_dicts h h1 \<Longrightarrow> same_dicts h1 h2 \<Longrightarrow> same_dicts h h2"
  by (simp add: same_dicts_def)

lemma same_dicts_scale_at: "same_dicts h (scale_at Wb Hb tgt a h)"
  by (auto simp: same_dicts_def scale_at_def split: option.splits obj.splits)

lemma getitem_same_dicts: "same_dicts h h' \<Longrightarrow> getitem h' v k = getitem h v k"
proof (cases v)
  case (IntV n)
  then show ?thesis by (simp add: getitem_def)
next
  case (Ref a)
  assume sd: "same_dicts h h'"
  show ?thesis
  proof (cases "\<exists>d. h a = Some (DictO d)")
    case True
    then obtain d where "h a = Some (DictO d)" by blast
    moreover from this sd have "h' a = Some (DictO d)" by (simp add: same_dicts_def)
    ultimately show ?thesis using Ref by (simp add: getitem_def)
  next
    case False
    with sd have "\<not> (\<exists>d. h' a = Some (DictO d))" by (simp add: same_dicts_def)
    with False Ref show ?thesis
      by (auto simp: getitem_def split: option.splits obj.splits)
  qed
qed

lemma entry_addrs_same_dicts:
  "same_dicts h h' \<Longrightarrow> entry_addrs h' bbox entry = entry_addrs h bbox entry"
  by (simp add: entry_addrs_def getitem_same_dicts split: prod.splits)

lemma bbox_addrs_same_dicts:
  assumes "same_dicts h h'"
  shows "bbox_addrs h' bbox = bbox_addrs h bbox"
proof (cases "\<exists>d. h bbox = Some (DictO d)")
  case True
  then obtain d where "h bbox = Some (DictO d)" by blast
  moreover from this assms have "h' bbox = Some (DictO d)" by (simp add: same_dicts_def)
  ultimately show ?thesis
    using assms by (simp add: bbox_addrs_def entry_addrs_same_dicts cong: map_cong)
next
  case False
  with assms have "\<not> (\<exists>d. h' bbox = Some (DictO d))" by (simp add: same_dicts_def)
  with False show ?thesis
    by (auto simp: bbox_addrs_def split: option.splits obj.splits)
qed

lemma dicts_ok_same_dicts: "dicts_ok h \<Longrightarrow> same_dicts h h' \<Longrightarrow> dicts_ok h'"
  by (simp add: dicts_ok_def same_dicts_def)

lemma dict_set_same: "map_of d k = Some x \<Longrightarrow> dict_set d k x = d"
  by (induction d) (auto split: if_splits)

lemma setitem_same:
  "getitem h n k = Inr x \<Longrightarrow> setitem h n k x = Inr h"
  by (auto simp: getitem_def setitem_def dict_set_same fun_upd_idem
      split: val.splits option.splits obj.splits)

lemma getitem_entry:
  "dicts_ok h \<Longrightarrow> h bbox = Some (DictO d) \<Longrightarrow> (key, v) \<in> set d \<Longrightarrow>
     getitem h (Ref bbox) key = Inr v"
  by (simp add: getitem_def dicts_ok_def)

lemma scale_part_Inr:
  assumes ok: "dicts_ok h" and b: "h bbox = Some (DictO d)" and e: "(key, v) \<in> set d"
    and run: "scale_part (Some Wb) (Some Hb) tgt bbox key v part h = Inr h'"
  shows "\<exists>a. getitem h v part = Inr (Ref a) \<and> h' = scale_at Wb Hb tgt a h"
proof -
  from run obtain c h1 a n where
    c: "getitem h v part = Inr c"
    and sc: "scale_val (Some Wb) (Some Hb) h c tgt = Inr (h1, a)"
    and n: "getitem h1 (Ref bbox) key = Inr n"
    and st: "setitem h1 n part (Ref a) = Inr h'"
    by (auto simp: scale_part_def split: sum.splits)
  from scale_val_Inr [OF sc] have ca: "c = Ref a" and h1: "h1 = scale_at Wb Hb tgt a h"
    by simp_all
  have sd: "same_dicts h h1" unfolding h1 by (rule same_dicts_scale_at)
  have "getitem h1 (Ref bbox) key = Inr v"
    using getitem_entry [OF ok b e] getitem_same_dicts [OF sd] by simp
  with n have "n = v" by simp
  moreover have "getitem h1 v part = Inr (Ref a)"
    using c ca getitem_same_dicts [OF sd] by simp
  ultimately have "setitem h1 n part (Ref a) = Inr h1"
    by (simp add: setitem_same)
  with st have "h' = h1" by simp
  with c ca h1 show ?thesis by simp
qed

lemma scale_entry_Inr:
  assumes ok: "dicts_ok h" and b: "h bbox = Some (DictO d)" and e: "entry \<in> set d"
    and run: "scale_entry (Some Wb) (Some Hb) tgt bbox h entry = Inr h'"
  shows "h' = fold (scale_at Wb Hb tgt) (entry_addrs h bbox entry) h"
proof -
  obtain key v where entry: "entry = (key, v)" by (cases entry)
  from e entry have kv: "(key, v) \<in> set d" by simp
  consider (corner) "key \<in> set [''min'', ''max'']"
    | (normal) "key \<notin> set [''min'', ''max'']" "key = ''normal''"
    | (other) "key \<notin> set [''min'', ''max'']" "key \<noteq> ''normal''"
    by blast
  then show ?thesis
  proof cases
    case corner
    with run entry obtain h1 a where
      sc: "scale_val (Some Wb) (Some Hb) h v tgt = Inr (h1, a)"
      and st: "setitem h1 (Ref bbox) key (Ref a) = Inr h'"
      by (auto simp: scale_entry_def split: sum.splits)
    from scale_val_Inr [OF sc] have va: "v = Ref a" and h1: "h1 = scale_at Wb Hb tgt a h"
      by simp_all
    have sd: "same_dicts h h1" unfolding h1 by (rule same_dicts_scale_at)
    have "getitem h1 (Ref bbox) key = Inr (Ref a)"
      using getitem_entry [OF ok b kv] getitem_same_dicts [OF sd] va by simp
    then have "setitem h1 (Ref bbox) key (Ref a) = Inr h1"
      by (rule setitem_same)
    with st have "h' = h1" by simp
    with corner entry va h1 show ?thesis
      by (simp add: entry_addrs_def ref_addrs_def)
  next
    case normal
    with run entry obtain cid where
      cid: "getitem h (Ref bbox) ''class_id'' = Inr cid"
      by (auto simp: scale_entry_def split: sum.splits)
    show ?thesis
    proof (cases "cid = IntV 2")
      case True
      with run entry normal cid show ?thesis
        by (simp add: scale_entry_def entry_addrs_def)
    next
      case False
      with run entry normal cid obtain h1 where
        p1: "scale_part (Some Wb) (Some Hb) tgt bbox key v ''origin'' h = Inr h1"
        and p2: "scale_part (Some Wb) (Some Hb) tgt bbox key v ''end'' h1 = Inr h'"
        by (auto simp: scale_entry_def split: sum.splits)
      from scale_part_Inr [OF ok b kv p1] obtain a1 where
        a1: "getitem h v ''origin'' = Inr (Ref a1)" and h1: "h1 = scale_at Wb Hb tgt a1 h"
        by blast
      have sd: "same_dicts h h1" unfolding h1 by (rule same_dicts_scale_at)
      have ok1: "dicts_ok h1" using ok sd by (rule dicts_ok_same_dicts)
      have b1: "h1 bbox = Some (DictO d)" using b sd by (simp add: same_dicts_def)
      from scale_part_Inr [OF ok1 b1 kv p2] obtain a2 where
        a2: "getitem h1 v ''end'' = Inr (Ref a2)" and h': "h' = scale_at Wb Hb tgt a2 h1"
        by blast
      from a2 have "getitem h v ''end'' = Inr (Ref a2)"
        using getitem_same_dicts [OF sd] by simp
      with a1 h1 h' False cid normal entry show ?thesis
        by (simp add: entry_addrs_def ref_addrs_def)
    qed
  next
    case other
    with run entry show ?thesis
      by (simp add: scale_entry_def entry_addrs_def)
  qed
qed

lemma same_dicts_fold: "same_dicts h (fold (scale_at Wb Hb tgt) as h)"
proof (induction as arbitrary: h)
  case Nil
  show ?case by (simp add: same_dicts_refl)
next
  case (Cons a as)
  show ?case
    using same_dicts_trans [OF same_dicts_scale_at Cons.IH] by simp
qed

lemma scale_entries_Inr:
  assumes "dicts_ok h" "h bbox = Some (DictO d)" "set es \<subseteq> set d"
    "scale_entries (Some Wb) (Some Hb) tgt bbox h es = Inr h'"
  shows "h' = fold (scale_at Wb Hb tgt) (concat (map (entry_addrs h bbox) es)) h"
  using assms
proof (induction es arbitrary: h)
  case Nil
  then show ?case by simp
next
  case (Cons e es)
  from Cons.prems(4) obtain h1 where
    e: "scale_entry (Some Wb) (Some Hb) tgt bbox h e = Inr h1"
    and rest: "scale_entries (Some Wb) (Some Hb) tgt bbox h1 es = Inr h'"
    by (auto split: sum.splits)
  from Cons.prems have mem: "e \<in> set d" by simp
  have h1: "h1 = fold (scale_at Wb Hb tgt) (entry_addrs h bbox e) h"
    using scale_entry_Inr [OF Cons.prems(1) Cons.prems(2) mem e] .
  have sd: "same_dicts h h1" unfolding h1 by (rule same_dicts_fold)
  have ok1: "dicts_ok h1" using Cons.prems(1) sd by (rule dicts_ok_same_dicts)
  have b1: "h1 bbox = Some (DictO d)" using Cons.prems(2) sd by (simp add: same_dicts_def)
  have sub: "set es \<subseteq> set d" using Cons.prems(3) by simp
  have "h' = fold (scale_at Wb Hb tgt) (concat (map (entry_addrs h1 bbox) es)) h1"
    using Cons.IH [OF ok1 b1 sub rest] .
  also have "map (entry_addrs h1 bbox) es = map (entry_addrs h bbox) es"
    using entry_addrs_same_dicts [OF sd] by simp
  finally show ?case by (simp add: h1)
qed

lemma scale_bboxes_Inr:
  assumes "dicts_ok h" "scale_bboxes (Some Wb) (Some Hb) tgt h bs acc = Inr (h', scaled)"
  shows "scaled = acc @ bs
         \<and> h' = fold (scale_at Wb Hb tgt) (concat (map (bbox_addrs h) bs)) h"
  using assms
proof (induction bs arbitrary: h acc)
  case Nil
  then show ?case by simp
next
  case (Cons b bs)
  from Cons.prems(2) obtain d h1 where
    d: "h b = Some (DictO d)"
    and es: "scale_entries (Some Wb) (Some Hb) tgt b h d = Inr h1"
    and rest: "scale_bboxes (Some Wb) (Some Hb) tgt h1 bs (acc @ [b]) = Inr (h', scaled)"
    by (auto split: option.splits obj.splits sum.splits)
  have h1: "h1 = fold (scale_at Wb Hb tgt) (bbox_addrs h b) h"
    using scale_entries_Inr [OF Cons.prems(1) d subset_refl es] d
    by (simp add: bbox_addrs_def)
  have sd: "same_dicts h h1" unfolding h1 by (rule same_dicts_fold)
  have ok1: "dicts_ok h1" using Cons.prems(1) sd by (rule dicts_ok_same_dicts)
  from Cons.IH [OF ok1 rest]
  have sc: "scaled = (acc @ [b]) @ bs"
    and h': "h' = fold (scale_at Wb Hb tgt) (concat (map (bbox_addrs h1) bs)) h1"
    by simp_all
  have "map (bbox_addrs h1) bs = map (bbox_addrs h) bs"
    using bbox_addrs_same_dicts [OF sd] by simp
  with h' have "h' = fold (scale_at Wb Hb tgt) (concat (map (bbox_addrs h) bs)) h1"
    by (simp only:)
  with sc show ?case by (simp add: h1)
qed

lemma fold_scale_at_other:
  "a \<notin> set as \<Longrightarrow> fold (scale_at Wb Hb tgt) as h a = h a"
  by (induction as arbitrary: h) (auto simp: scale_at_def split: option.splits obj.splits)

lemma fold_scale_at_once:
  "distinct as \<Longrightarrow> a \<in> set as \<Longrightarrow> h a = Some (ListO xs) \<Longrightarrow>
     fold (scale_at Wb Hb tgt) as h a = Some (ListO (scaled_list Wb Hb tgt xs))"
proof (induction as arbitrary: h)
  case Nil
  then show ?case by simp
next
  case (Cons b as)
  show ?case
  proof (cases "a = b")
    case True
    with Cons.prems have "a \<notin> set as" by simp
    moreover from True Cons.prems(3)
    have "scale_at Wb Hb tgt b h a = Some (ListO (scaled_list Wb Hb tgt xs))"
      by (simp add: scale_at_def)
    ultimately show ?thesis
      by (simp add: fold_scale_at_other)
  next
    case False
    with Cons.prems have "scale_at Wb Hb tgt b h a = Some (ListO xs)"
      by (auto simp: scale_at_def split: option.splits obj.splits)
    with Cons False show ?thesis by simp
  qed
qed

text \<open>
  C10. \<open>scale_coordinates\<close> returns the address it was given, and the store afterwards
  differs only there, where indices 0 and 1 of the list are overwritten with the scaled
  values. In the loop of \<open>generate\<close> the list of scaled bounding boxes is the list of
  the renderer's bounding boxes itself (the same addresses), no dictionary changes, so
  each bounding box still refers to the same coordinate lists, and the store is the
  initial one with the list at each corner and normal address scaled in place: where
  these addresses are distinct, each holds the scaled list and no longer the original.
\<close>

theorem scaling_aliases_and_overwrites:
  "(scale_coordinates (Some Wb) (Some Hb) h c tgt = Inr (h1, r) \<longrightarrow>
      r = c \<and> (\<exists>xs. h c = Some (ListO xs) \<and> h1 = h(c \<mapsto> ListO (scaled_list Wb Hb tgt xs))))
   \<and> (dicts_ok h \<and> scale_bboxes (Some Wb) (Some Hb) tgt h bboxes [] = Inr (h', scaled) \<longrightarrow>
        scaled = bboxes
        \<and> h' = fold (scale_at Wb Hb tgt) (concat (map (bbox_addrs h) bboxes)) h
        \<and> same_dicts h h'
        \<and> (distinct (concat (map (bbox_addrs h) bboxes))
             \<and> a \<in> set (concat (map (bbox_addrs h) bboxes))
             \<and> h a = Some (ListO xs) \<longrightarrow>
             h' a = Some (ListO (scaled_list Wb Hb tgt xs))))"
proof (intro conjI impI)
  assume "scale_coordinates (Some Wb) (Some Hb) h c tgt = Inr (h1, r)"
  from scale_coordinates_Inr [OF this]
  show "r = c"
    and "\<exists>xs. h c = Some (ListO xs) \<and> h1 = h(c \<mapsto> ListO (scaled_list Wb Hb tgt xs))"
    by simp_all
next
  assume "dicts_ok h \<and> scale_bboxes (Some Wb) (Some Hb) tgt h bboxes [] = Inr (h', scaled)"
  then have res: "scaled = bboxes"
    "h' = fold (scale_at Wb Hb tgt) (concat (map (bbox_addrs h) bboxes)) h"
    using scale_bboxes_Inr [of h Wb Hb tgt bboxes "[]" h' scaled] by simp_all
  show "scaled = bboxes" by (rule res)
  show "h' = fold (scale_at Wb Hb tgt) (concat (map (bbox_addrs h) bboxes)) h" by (rule res)
  show "same_dicts h h'" unfolding res by (rule same_dicts_fold)
  assume "distinct (concat (map (bbox_addrs h) bboxes))
      \<and> a \<in> set (concat (map (bbox_addrs h) bboxes)) \<and> h a = Some (ListO xs)"
  then show "h' a = Some (ListO (scaled_list Wb Hb tgt xs))"
    unfolding res by (intro fold_scale_at_once) simp_all
qed

lemma example_heap_dicts_ok: "dicts_ok example_heap"
  by (simp add: dicts_ok_def example_heap_def)

lemma example_bbox_addrs: "bbox_addrs example_heap 0 = [1, 2, 4, 5]"
  by (simp add: bbox_addrs_def entry_addrs_def ref_addrs_def getitem_def example_heap_def)

lemma example_scale_bboxes:
  "scale_bboxes (Some 640) (Some 480) (320, 240) example_heap [0] [] =
     Inr (example_heap(1 \<mapsto> ListO [50, 25], 2 \<mapsto> ListO [150, 125],
                       4 \<mapsto> ListO [100, 75], 5 \<mapsto> ListO [100, 75]), [0])"
  by (simp add: example_heap_def scale_entry_def scale_part_def scale_val_def
      scale_coordinates_def scale_axis_def py_int_quot_def getitem_def setitem_def fun_upd_twist)

theorem scaling_aliases_and_overwrites_witness:
  "scale_coordinates (Some 640) (Some 480) example_heap 1 (320, 240) =
     Inr (example_heap(1 \<mapsto> ListO [50, 25]), 1)
   \<and> dicts_ok example_heap
   \<and> scale_bboxes (Some 640) (Some 480) (320, 240) example_heap [0] [] =
       Inr (example_heap(1 \<mapsto> ListO [50, 25], 2 \<mapsto> ListO [150, 125],
                         4 \<mapsto> ListO [100, 75], 5 \<mapsto> ListO [100, 75]), [0])
   \<and> example_heap 5 = Some (ListO [201, 151])
   \<and> (example_heap(1 \<mapsto> ListO [50, 25], 2 \<mapsto> ListO [150, 125],
                     4 \<mapsto> ListO [100, 75], 5 \<mapsto> ListO [100, 75])) 5 =
       Some (ListO (scaled_list 640 480 (320, 240) [201, 151]))
   \<and> scaled_list 640 480 (320, 240) [201, 151] = [100, 75]"
proof -
  have c: "scale_coordinates (Some 640) (Some 480) example_heap 1 (320, 240) =
     Inr (example_heap(1 \<mapsto> ListO [50, 25]), 1)"
    by (simp add: example_heap_def scale_coordinates_def scale_axis_def py_int_quot_def)
  have five: "example_heap 5 = Some (ListO [201, 151])"
    by (simp add: example_heap_def)
  have run: "dicts_ok example_heap
      \<and> scale_bboxes (Some 640) (Some 480) (320, 240) example_heap [0] [] =
          Inr (example_heap(1 \<mapsto> ListO [50, 25], 2 \<mapsto> ListO [150, 125],
                            4 \<mapsto> ListO [100, 75], 5 \<mapsto> ListO [100, 75]), [0])"
    using example_heap_dicts_ok example_scale_bboxes by (rule conjI)
  have once: "distinct (concat (map (bbox_addrs example_heap) [0]))
      \<and> 5 \<in> set (concat (map (bbox_addrs example_heap) [0]))
      \<and> example_heap 5 = Some (ListO [201, 151])"
    using five by (simp add: example_bbox_addrs)
  have scaled5: "(example_heap(1 \<mapsto> ListO [50, 25], 2 \<mapsto> ListO [150, 125],
                     4 \<mapsto> ListO [100, 75], 5 \<mapsto> ListO [100, 75])) 5 =
       Some (ListO (scaled_list 640 480 (320, 240) [201, 151]))"
    using run once
      scaling_aliases_and_overwrites [of 640 480 example_heap 1 "(320, 240)"
        "example_heap(1 \<mapsto> ListO [50, 25])" 1 "[0]"
        "example_heap(1 \<mapsto> ListO [50, 25], 2 \<mapsto> ListO [150, 125],
                       4 \<mapsto> ListO [100, 75], 5 \<mapsto> ListO [100, 75])" "[0]" 5 "[201, 151]"]
    by blast
  have sl: "scaled_list 640 480 (320, 240) [201, 151] = [100, 75]"
    by (simp add: scaled_list_def py_int_quot_def)
  show ?thesis
    using c run five scaled5 sl by blast
qed

section \<open>Properties of generation and persistence\<close>

lemma SyntheticAnnotations_call_one: "SyntheticAnnotations_call [x] = Inl TypeError"
  by (simp add: SyntheticAnnotations_call_def)

lemma generate_emits_nothing:
  "generated_dataset (fst (snd (generate ext f h index projector))) = generated_dataset f
   \<and> fst (generate ext f h index projector) \<noteq> Returns ()"
  by (simp add: generate_def SyntheticAnnotations_call_one Let_def
      split: option.splits prod.splits pyval.splits sum.splits)

lemma example_generate:
  "generate example_ext example_factory Map.empty (PyInt 0) (PyRef 0) =
     (Raises TypeError,
      example_factory
        \<lparr>background_dataset :=
           (background_dataset example_factory)\<lparr>data := \<lparr>items = [], unfinished_tasks = 0\<rparr>\<rparr>,
         visible_gates := 1\<rparr>,
      example_heap(1 \<mapsto> ListO [50, 25], 2 \<mapsto> ListO [150, 125],
                   4 \<mapsto> ListO [100, 75], 5 \<mapsto> ListO [100, 75]))"
  by (simp add: generate_def example_ext_def example_factory_def Queue_get_def Let_def
      example_scale_bboxes SyntheticAnnotations_call_one del: scale_bboxes.simps)

text \<open>
  C4, at a failing input. One sample is asked for. Under the sequential strategy
  \<open>generate(0, projector)\<close> takes the background, renders, composites and scales, and
  then raises a \<open>TypeError\<close> on \<^verbatim>\<open>SyntheticAnnotations(scaled_bboxes)\<close> before anything is
  put on the sample queue. Under the parallel strategy the pool calls \<open>generate\<close> with
  the pair \<open>(0, 0)\<close> as its only argument, a \<open>TypeError\<close> as well. In both runs no id is
  emitted, where the claim has the id 0 emitted once.
\<close>

theorem run_emits_no_sample:
  "factory_count example_factory = 1
   \<and> fst (run example_ext example_str (Inr (PyRef 0)) example_factory Map.empty) =
       Raises TypeError
   \<and> emitted_ids (fst (snd (run example_ext example_str (Inr (PyRef 0)) example_factory
         Map.empty))) = []
   \<and> fst (run_multi_threaded example_ext example_str (Inr (PyRef 0)) (\<lambda>xs. xs)
         example_factory Map.empty) = Raises TypeError
   \<and> emitted_ids (fst (snd (run_multi_threaded example_ext example_str (Inr (PyRef 0))
         (\<lambda>xs. xs) example_factory Map.empty))) = []"
proof -
  have c: "factory_count example_factory = 1" "nb_threads example_factory = 1"
    "generated_dataset example_factory = example_dataset ''out''"
    by (simp_all add: example_factory_def)
  have s: "save_call example_str [] (example_dataset ''out'') [] =
      (Raises TypeError, example_dataset ''out'', ([] :: (string \<times> nat) list))"
    by (simp add: save_call_def)
  have f: "example_factory\<lparr>generated_dataset := example_dataset ''out''\<rparr> = example_factory"
    by (simp add: example_factory_def)
  have seq: "run example_ext example_str (Inr (PyRef 0)) example_factory Map.empty =
      generate example_ext example_factory Map.empty (PyInt 0) (PyRef 0)"
    by (simp add: run_def c s f generate_call_def example_generate)
  have par: "run_multi_threaded example_ext example_str (Inr (PyRef 0)) (\<lambda>xs. xs)
        example_factory Map.empty = (Raises TypeError, example_factory, Map.empty)"
    by (simp add: run_multi_threaded_def c s f generate_call_def)
  show ?thesis
    by (simp add: c seq par example_generate emitted_ids_def)
      (simp add: example_factory_def example_dataset_def Queue_new_def)
qed

text \<open>
  C5, at a failing input. The sample queue holds one finished sample and then the
  sentinel. A persistence worker writes the sample, takes the sentinel and raises an
  \<open>AttributeError\<close> on its \<^verbatim>\<open>image\<close> attribute: it has no test for the sentinel. The task
  of the sentinel is never marked done, so \<open>save\<close>, which joins the queue after its
  workers, blocks for ever. The thread \<open>run\<close> starts calls \<open>save\<close> with no argument and
  ends in a \<open>TypeError\<close> with no worker started.
\<close>

theorem save_blocks_on_sentinel:
  "save_one example_str example_samples [] =
     (Raises AttributeError,
      example_samples\<lparr>data := \<lparr>items = [], unfinished_tasks = 1\<rparr>\<rparr>,
      [(''out0.png'', 7)])
   \<and> save example_str 1 example_samples [] =
       (Blocks,
        example_samples\<lparr>data := \<lparr>items = [], unfinished_tasks = 1\<rparr>\<rparr>,
        [(''out0.png'', 7)])
   \<and> save_call example_str [] example_samples [] = (Raises TypeError, example_samples, [])"
  by (simp add: save_one_def save_def save_call_def example_samples_def example_sample_def
      example_str_def Queue_join_returns_def)

end
